theory Spec2Isabelle
  imports Complex_Main "HOL-Library.Sublist"
begin

section \<open>JavaScript values\<close>

text \<open>
  The client (\<^verbatim>\<open>frontend/src/App.jsx\<close>, \<^verbatim>\<open>frontend/src/api.js\<close>) handles parsed JSON and
  form strings. A JavaScript number is a finite value or one of the three special values;
  finite values are kept as rationals (every finite double is one), and the sign of zero
  is not kept: the code only compares numbers with zero and tests them for truth.
\<close>

datatype jsnum = Finite rat | PosInfinity | NegInfinity | NaN

datatype jsval =
    Undefined
  | Null
  | Bool bool
  | Num jsnum
  | Str string
  | Arr "jsval list"
  | Obj "(string \<times> jsval) list"

text \<open>
  What is thrown: a TypeError, a SyntaxError, an Error with its message, and the Error
  with which React refuses a plain object among the children of an element
  (\<^verbatim>\<open>Objects are not valid as a React child\<close>).
\<close>

datatype js_error = TypeError | SyntaxError | Error string | InvalidChild

text \<open>
  The built-ins of the platform are parameters of the model: \<^verbatim>\<open>String.prototype.trim\<close>,
  \<^verbatim>\<open>toLowerCase\<close>, \<^verbatim>\<open>toUpperCase\<close>, \<^verbatim>\<open>Number(string)\<close> and the conversion of a number to
  a string. Nothing proved below depends on what they compute.
\<close>

record platform =
  js_trim :: "string \<Rightarrow> string"
  js_toLowerCase :: "string \<Rightarrow> string"
  js_toUpperCase :: "string \<Rightarrow> string"
  js_Number :: "string \<Rightarrow> jsnum"
  js_numToString :: "jsnum \<Rightarrow> string"

text \<open>Truthiness, as \<^verbatim>\<open>if (v)\<close>, \<^verbatim>\<open>v ? a : b\<close> and \<^verbatim>\<open>v || w\<close> test it.\<close>

fun truthy :: "jsval \<Rightarrow> bool" where
  "truthy Undefined = False"
| "truthy Null = False"
| "truthy (Bool b) = b"
| "truthy (Num (Finite r)) = (r \<noteq> 0)"
| "truthy (Num NaN) = False"
| "truthy (Num PosInfinity) = True"
| "truthy (Num NegInfinity) = True"
| "truthy (Str s) = (s \<noteq> [])"
| "truthy (Arr xs) = True"
| "truthy (Obj fs) = True"

definition js_or :: "jsval \<Rightarrow> jsval \<Rightarrow> jsval" where
  \<comment> \<open>\<^verbatim>\<open>a || b\<close>\<close>
  "js_or a b = (if truthy a then a else b)"

definition str_or :: "string \<Rightarrow> string \<Rightarrow> string" where
  \<comment> \<open>\<^verbatim>\<open>a || b\<close> on two strings: the empty string is the only falsy one\<close>
  "str_or a b = (if a \<noteq> [] then a else b)"

text \<open>
  Property access \<^verbatim>\<open>v.k\<close>. Reading a property of \<^verbatim>\<open>undefined\<close> or \<^verbatim>\<open>null\<close> throws a
  TypeError; a property that is not there reads as \<^verbatim>\<open>undefined\<close>. The keys the client
  reads (\<^verbatim>\<open>data\<close>, \<^verbatim>\<open>price\<close>, \<^verbatim>\<open>detail\<close>, ...) are no built-in properties of strings,
  numbers, booleans or arrays, so on those values they read as \<^verbatim>\<open>undefined\<close> too. An object
  lists its own properties, each key once.
\<close>

fun js_prop :: "jsval \<Rightarrow> string \<Rightarrow> jsval" where
  "js_prop (Obj fs) k = (case map_of fs k of None \<Rightarrow> Undefined | Some v \<Rightarrow> v)"
| "js_prop v k = Undefined"

definition nullish :: "jsval \<Rightarrow> bool" where
  "nullish v = (v = Undefined \<or> v = Null)"

definition js_get :: "jsval \<Rightarrow> string \<Rightarrow> js_error + jsval" where
  "js_get v k = (if nullish v then Inl TypeError else Inr (js_prop v k))"

text \<open>\<^verbatim>\<open>String(v)\<close>, also the conversion a template literal applies to each hole.\<close>

fun intersperse :: "string \<Rightarrow> string list \<Rightarrow> string" where
  "intersperse sep [] = []"
| "intersperse sep [s] = s"
| "intersperse sep (s # t # ss) = s @ sep @ intersperse sep (t # ss)"

fun js_String :: "platform \<Rightarrow> jsval \<Rightarrow> string" where
  "js_String pf Undefined = ''undefined''"
| "js_String pf Null = ''null''"
| "js_String pf (Bool b) = (if b then ''true'' else ''false'')"
| "js_String pf (Num n) = js_numToString pf n"
| "js_String pf (Str s) = s"
| "js_String pf (Arr xs) =
     intersperse '','' (map (\<lambda>x. if nullish x then [] else js_String pf x) xs)"
| "js_String pf (Obj fs) = ''[object Object]''"

definition js_isFinite :: "jsnum \<Rightarrow> bool" where
  \<comment> \<open>\<^verbatim>\<open>Number.isFinite\<close>\<close>
  "js_isFinite n = (case n of Finite r \<Rightarrow> True | _ \<Rightarrow> False)"

definition js_le_zero :: "jsnum \<Rightarrow> bool" where
  \<comment> \<open>\<^verbatim>\<open>n <= 0\<close>; every comparison with NaN is false\<close>
  "js_le_zero n = (case n of Finite r \<Rightarrow> r \<le> 0 | NegInfinity \<Rightarrow> True | _ \<Rightarrow> False)"

section \<open>The constants and the form state of App.jsx\<close>

definition METALS :: "string list" where
  "METALS = [''silver'', ''gold'', ''platinum'']"

definition GOLD_PURITY :: "string list" where
  "GOLD_PURITY = [''18K'', ''22K'', ''24K'']"

definition UNITS :: "string list" where
  "UNITS = [''1g'', ''10g'', ''1kg'']"

text \<open>The state \<^verbatim>\<open>form\<close> of the add-price form and the state \<^verbatim>\<open>predictFilter\<close>.\<close>

record form =
  form_date :: string
  form_metal :: string
  form_purity :: string
  form_unit :: string
  form_price :: string

record predictFilter =
  filter_metal :: string
  filter_purity :: string

definition initial_form :: form where
  "initial_form =
     \<lparr>form_date = [], form_metal = ''silver'', form_purity = [], form_unit = ''1g'',
      form_price = []\<rparr>"

definition initial_predictFilter :: predictFilter where
  "initial_predictFilter = \<lparr>filter_metal = ''silver'', filter_purity = []\<rparr>"

text \<open>The \<^verbatim>\<open>onChange\<close> handlers of the two metal selectors; \<open>v\<close> is \<^verbatim>\<open>e.target.value\<close>.\<close>

definition form_metal_onChange :: "string \<Rightarrow> form \<Rightarrow> form" where
  "form_metal_onChange v p =
     p\<lparr>form_metal := v,
       form_purity := (if v = ''gold'' then str_or (form_purity p) ''24K'' else [])\<rparr>"

definition filter_metal_onChange :: "string \<Rightarrow> predictFilter \<Rightarrow> predictFilter" where
  "filter_metal_onChange v p =
     p\<lparr>filter_metal := v,
       filter_purity := (if v = ''gold'' then str_or (filter_purity p) ''24K'' else [])\<rparr>"

definition form_purity_onChange :: "string \<Rightarrow> form \<Rightarrow> form" where
  "form_purity_onChange v p = p\<lparr>form_purity := v\<rparr>"

definition filter_purity_onChange :: "string \<Rightarrow> predictFilter \<Rightarrow> predictFilter" where
  "filter_purity_onChange v p = p\<lparr>filter_purity := v\<rparr>"

section \<open>The API client (api.js)\<close>

datatype http_method = GET | POST | PUT | DELETE

text \<open>
  A request as \<^verbatim>\<open>fetch\<close> receives it. The body is the value given to
  \<^verbatim>\<open>JSON.stringify\<close>. Only \<^verbatim>\<open>predict\<close> has query parameters: its URL is \<open>req_url\<close>, a
  question mark and the serialisation of \<open>req_query\<close> by \<^verbatim>\<open>URLSearchParams.toString\<close>.
\<close>

record request =
  req_method :: http_method
  req_url :: string
  req_query :: "(string \<times> string) list"
  req_headers :: "(string \<times> string) list"
  req_body :: "jsval option"

text \<open>
  A response: \<^verbatim>\<open>res.ok\<close>, and what awaiting \<^verbatim>\<open>res.json()\<close> gives, a SyntaxError when
  the body is not JSON. \<^verbatim>\<open>fetch\<close> itself is a parameter; it fails when there is no
  response at all.
\<close>

record response =
  res_ok :: bool
  res_json :: "js_error + jsval"

type_synonym fetch = "request \<Rightarrow> js_error + response"

definition API_BASE :: string where
  "API_BASE = ''http://localhost:8000''"

definition getChain_request :: request where
  "getChain_request =
     \<lparr>req_method = GET, req_url = API_BASE @ ''/chain'', req_query = [], req_headers = [],
      req_body = None\<rparr>"

definition addPrice_request :: "jsval \<Rightarrow> request" where
  "addPrice_request payload =
     \<lparr>req_method = POST, req_url = API_BASE @ ''/prices'', req_query = [],
      req_headers = [(''Content-Type'', ''application/json'')], req_body = Some payload\<rparr>"

definition updatePrice_request :: "platform \<Rightarrow> jsval \<Rightarrow> jsval \<Rightarrow> request" where
  "updatePrice_request pf blockIndex payload =
     \<lparr>req_method = PUT, req_url = API_BASE @ ''/prices/'' @ js_String pf blockIndex,
      req_query = [], req_headers = [(''Content-Type'', ''application/json'')],
      req_body = Some payload\<rparr>"

definition deletePrice_request :: "platform \<Rightarrow> jsval \<Rightarrow> request" where
  "deletePrice_request pf blockIndex =
     \<lparr>req_method = DELETE, req_url = API_BASE @ ''/prices/'' @ js_String pf blockIndex,
      req_query = [], req_headers = [], req_body = None\<rparr>"

definition getChain :: "fetch \<Rightarrow> js_error + jsval" where
  "getChain fetch =
     (case fetch getChain_request of
        Inl e \<Rightarrow> Inl e
      | Inr res \<Rightarrow>
          if \<not> res_ok res then Inl (Error ''Failed to fetch chain'') else res_json res)"

text \<open>
  The lines that end \<^verbatim>\<open>addPrice\<close>, \<^verbatim>\<open>updatePrice\<close>, \<^verbatim>\<open>deletePrice\<close> and \<^verbatim>\<open>predict\<close>,
  which differ in the fallback message only:
  \<^verbatim>\<open>if (!res.ok) { const error = await res.json(); throw new Error(error.detail || fallback) }\<close>
  \<^verbatim>\<open>return res.json()\<close>.
\<close>

definition json_or_throw :: "platform \<Rightarrow> string \<Rightarrow> response \<Rightarrow> js_error + jsval" where
  "json_or_throw pf fallback res =
     (if \<not> res_ok res then
        (case res_json res of
           Inl e \<Rightarrow> Inl e
         | Inr error \<Rightarrow>
             (case js_get error ''detail'' of
                Inl e \<Rightarrow> Inl e
              | Inr detail \<Rightarrow> Inl (Error (js_String pf (js_or detail (Str fallback))))))
      else res_json res)"

definition addPrice :: "platform \<Rightarrow> fetch \<Rightarrow> jsval \<Rightarrow> js_error + jsval" where
  "addPrice pf fetch payload =
     (case fetch (addPrice_request payload) of
        Inl e \<Rightarrow> Inl e
      | Inr res \<Rightarrow> json_or_throw pf ''Failed to add price'' res)"

definition updatePrice :: "platform \<Rightarrow> fetch \<Rightarrow> jsval \<Rightarrow> jsval \<Rightarrow> js_error + jsval" where
  "updatePrice pf fetch blockIndex payload =
     (case fetch (updatePrice_request pf blockIndex payload) of
        Inl e \<Rightarrow> Inl e
      | Inr res \<Rightarrow> json_or_throw pf ''Failed to update price'' res)"

definition deletePrice :: "platform \<Rightarrow> fetch \<Rightarrow> jsval \<Rightarrow> js_error + jsval" where
  "deletePrice pf fetch blockIndex =
     (case fetch (deletePrice_request pf blockIndex) of
        Inl e \<Rightarrow> Inl e
      | Inr res \<Rightarrow> json_or_throw pf ''Failed to delete price'' res)"

text \<open>
  \<^verbatim>\<open>predict({ daysAhead = 1, metal = 'silver', purity = null } = {})\<close>: a default stands
  in for an argument or a property that is \<^verbatim>\<open>undefined\<close>, and destructuring \<^verbatim>\<open>null\<close>
  throws. \<^verbatim>\<open>URLSearchParams\<close> converts each value to a string; \<^verbatim>\<open>set\<close> overwrites the
  first entry of the name and removes the others, or appends.
\<close>

definition dflt :: "jsval \<Rightarrow> jsval \<Rightarrow> jsval" where
  "dflt v d = (if v = Undefined then d else v)"

fun params_set :: "string \<Rightarrow> string \<Rightarrow> (string \<times> string) list \<Rightarrow> (string \<times> string) list" where
  "params_set k v [] = [(k, v)]"
| "params_set k v ((k', v') # ps) =
     (if k' = k then (k, v) # filter (\<lambda>(n, _). n \<noteq> k) ps else (k', v') # params_set k v ps)"

definition predict_params :: "platform \<Rightarrow> jsval \<Rightarrow> js_error + (string \<times> string) list" where
  "predict_params pf arg =
     (let a = dflt arg (Obj []) in
      if nullish a then Inl TypeError
      else
        let daysAhead = dflt (js_prop a ''daysAhead'') (Num (Finite 1));
            metal = dflt (js_prop a ''metal'') (Str ''silver'');
            purity = dflt (js_prop a ''purity'') Null;
            params = [(''days_ahead'', js_String pf daysAhead), (''metal'', js_String pf metal)]
        in Inr (if truthy purity then params_set ''purity'' (js_String pf purity) params
                else params))"

definition predict_request :: "(string \<times> string) list \<Rightarrow> request" where
  "predict_request params =
     \<lparr>req_method = GET, req_url = API_BASE @ ''/predict'', req_query = params,
      req_headers = [], req_body = None\<rparr>"

definition predict :: "platform \<Rightarrow> fetch \<Rightarrow> jsval \<Rightarrow> js_error + jsval" where
  "predict pf fetch arg =
     (case predict_params pf arg of
        Inl e \<Rightarrow> Inl e
      | Inr params \<Rightarrow>
          (case fetch (predict_request params) of
             Inl e \<Rightarrow> Inl e
           | Inr res \<Rightarrow> json_or_throw pf ''Failed to predict'' res))"

section \<open>The handlers of App.jsx\<close>

text \<open>\<^verbatim>\<open>predictionPayload\<close>, the argument of the only call of \<^verbatim>\<open>predict\<close> (in \<^verbatim>\<open>loadData\<close>).\<close>

definition predictionPayload :: "predictFilter \<Rightarrow> jsval" where
  "predictionPayload flt =
     Obj [(''daysAhead'', Num (Finite 1)),
          (''metal'', Str (filter_metal flt)),
          (''purity'', if filter_metal flt = ''gold'' then Str (filter_purity flt) else Null)]"

text \<open>The object \<^verbatim>\<open>handleSubmit\<close> gives to \<^verbatim>\<open>addPrice\<close>.\<close>

definition handleSubmit_payload :: "platform \<Rightarrow> form \<Rightarrow> jsval" where
  "handleSubmit_payload pf f =
     Obj [(''date'', Str (form_date f)),
          (''metal'', Str (form_metal f)),
          (''purity'', if form_metal f = ''gold'' then Str (form_purity f) else Null),
          (''unit'', Str (form_unit f)),
          (''price'', Num (js_Number pf (form_price f)))]"

text \<open>
  \<^verbatim>\<open>handleSubmit\<close> is the \<^verbatim>\<open>onSubmit\<close> handler of the form, so the browser runs it only
  when the form's controls satisfy their constraints. The constraints written in the JSX
  are the \<^verbatim>\<open>required\<close> attributes: on the date input, on the price input, and on the
  purity selector while the metal is gold (\<^verbatim>\<open>required={form.metal === 'gold'}\<close>; the
  selector's first option, with the empty value, is its placeholder). The browser's
  further checks of the date and number inputs can only block more submissions.
\<close>

definition form_valid :: "form \<Rightarrow> bool" where
  "form_valid f =
     (form_date f \<noteq> [] \<and> (form_metal f = ''gold'' \<longrightarrow> form_purity f \<noteq> [])
      \<and> form_price f \<noteq> [])"

definition submit :: "platform \<Rightarrow> form \<Rightarrow> request option" where
  "submit pf f =
     (if form_valid f then Some (addPrice_request (handleSubmit_payload pf f)) else None)"

text \<open>
  What a handler does up to the request it sends: it returns before any request
  (\<open>Cancelled\<close>), it calls \<^verbatim>\<open>setError\<close> with a message and returns (\<open>Rejected\<close>), or it
  calls the API function, which sends the request (\<open>Sent\<close>). The window is a parameter:
  \<^verbatim>\<open>window.prompt\<close> maps the message and the default text to the text entered, or to
  \<^verbatim>\<open>null\<close> when the dialog is dismissed, and \<^verbatim>\<open>window.confirm\<close> maps the message to the
  answer.
\<close>

datatype outcome = Cancelled | Rejected string | Sent request

record window =
  prompt :: "string \<Rightarrow> jsval \<Rightarrow> string option"
  confirm :: "string \<Rightarrow> bool"

definition prompt_date :: "window \<Rightarrow> jsval \<Rightarrow> string option" where
  "prompt_date win current = prompt win ''Update date (YYYY-MM-DD):'' (js_prop current ''date'')"

definition prompt_unit :: "window \<Rightarrow> jsval \<Rightarrow> string option" where
  "prompt_unit win current =
     prompt win ''Update unit (1g / 10g / 1kg):'' (js_prop current ''unit'')"

definition prompt_purity :: "window \<Rightarrow> jsval \<Rightarrow> string option" where
  "prompt_purity win current =
     prompt win ''Update gold purity (18K / 22K / 24K):''
       (js_or (js_prop current ''purity'') (Str ''24K''))"

definition prompt_price :: "platform \<Rightarrow> window \<Rightarrow> jsval \<Rightarrow> string option" where
  "prompt_price pf win current =
     prompt win ''Update price in INR for selected unit:''
       (Str (js_String pf (js_prop current ''price'')))"

definition handleUpdate :: "platform \<Rightarrow> window \<Rightarrow> jsval \<Rightarrow> js_error + outcome" where
  "handleUpdate pf win block =
     (case js_get block ''data'' of
        Inl e \<Rightarrow> Inl e
      | Inr current \<Rightarrow>
     (case js_get current ''date'' of
        Inl e \<Rightarrow> Inl e
      | Inr _ \<Rightarrow>
     (case prompt_date win current of
        None \<Rightarrow> Inr Cancelled
      | Some newDate \<Rightarrow>
     (case prompt_unit win current of
        None \<Rightarrow> Inr Cancelled
      | Some newUnitInput \<Rightarrow>
     (let newUnit = js_toLowerCase pf (js_trim pf newUnitInput) in
      if newUnit \<notin> set UNITS then Inr (Rejected ''Unit must be 1g, 10g, or 1kg'')
      else
     (case (if js_prop current ''metal'' = Str ''gold'' then
              (case prompt_purity win current of
                 None \<Rightarrow> Inl Cancelled
               | Some purityInput \<Rightarrow>
                   (let newPurity = js_toUpperCase pf (js_trim pf purityInput) in
                    if newPurity \<notin> set GOLD_PURITY
                    then Inl (Rejected ''Gold purity must be 18K, 22K, or 24K'')
                    else Inr (Str newPurity)))
            else Inr (js_or (js_prop current ''purity'') Null)) of
        Inl early \<Rightarrow> Inr early
      | Inr newPurity \<Rightarrow>
     (case prompt_price pf win current of
        None \<Rightarrow> Inr Cancelled
      | Some newPriceInput \<Rightarrow>
     (let newPrice = js_Number pf newPriceInput in
      if \<not> js_isFinite newPrice \<or> js_le_zero newPrice
      then Inr (Rejected ''Price must be a positive number'')
      else
        Inr (Sent (updatePrice_request pf (js_prop block ''index'')
          (Obj [(''date'', Str newDate),
                (''metal'', js_prop current ''metal''),
                (''purity'',
                   if js_prop current ''metal'' = Str ''gold'' then newPurity else Null),
                (''unit'', Str newUnit),
                (''price'', Num newPrice)])))))))))))"

definition confirm_message :: "platform \<Rightarrow> jsval \<Rightarrow> jsval \<Rightarrow> string \<Rightarrow> string" where
  "confirm_message pf block d metal =
     ''Remove #'' @ js_String pf (js_prop block ''index'') @ '' ('' @ js_toUpperCase pf metal
       @ '' '' @ js_String pf (js_or (js_prop d ''purity'') (Str [])) @ '' ''
       @ js_String pf (js_prop d ''unit'') @ '' - Rs '' @ js_String pf (js_prop d ''price'')
       @ '')?''"

definition handleDelete :: "platform \<Rightarrow> window \<Rightarrow> jsval \<Rightarrow> js_error + outcome" where
  "handleDelete pf win block =
     (case js_get block ''data'' of
        Inl e \<Rightarrow> Inl e
      | Inr d \<Rightarrow>
     (case js_get d ''metal'' of
        Inl e \<Rightarrow> Inl e
      | Inr (Str metal) \<Rightarrow>
          if \<not> confirm win (confirm_message pf block d metal) then Inr Cancelled
          else Inr (Sent (deletePrice_request pf (js_prop block ''index'')))
      | Inr _ \<Rightarrow> Inl TypeError))"

text \<open>The requests a handler run has sent; a run that threw before the call sent none.\<close>

definition requests_sent :: "js_error + outcome \<Rightarrow> request list" where
  "requests_sent r = (case r of Inr (Sent req) \<Rightarrow> [req] | _ \<Rightarrow> [])"

definition error_shown :: "js_error + outcome \<Rightarrow> string option" where
  \<comment> \<open>the message given to \<^verbatim>\<open>setError\<close> before the handler returned\<close>
  "error_shown r = (case r of Inr (Rejected msg) \<Rightarrow> Some msg | _ \<Rightarrow> None)"

section \<open>What App.jsx renders\<close>

text \<open>
  A row of the blockchain table: the values the JSX puts into the cells, in the order of
  the columns. The hash cell shows \<open>row_hash\<close> followed by three dots.
\<close>

record row =
  row_index :: jsval
  row_date :: jsval
  row_metal :: string
  row_purity :: jsval
  row_unit :: jsval
  row_price :: jsval
  row_hash :: jsval

record chain_table =
  tbl_length :: jsval
  tbl_valid :: string
  tbl_prefix :: jsval
  tbl_rows :: "row list"

text \<open>
  What React accepts as the child of an element: a string or a number, which it shows;
  \<^verbatim>\<open>undefined\<close>, \<^verbatim>\<open>null\<close> and the booleans, which it shows as nothing; an array of
  such values. On a plain object it throws, and nothing of the component is shown.
\<close>

fun react_child_ok :: "jsval \<Rightarrow> bool" where
  "react_child_ok (Obj fs) = False"
| "react_child_ok (Arr xs) = list_all react_child_ok xs"
| "react_child_ok v = True"

definition row_children :: "row \<Rightarrow> jsval list" where
  \<comment> \<open>the children of the cells of a row, in the order of the columns\<close>
  "row_children r =
     [row_index r, row_date r, Str (row_metal r), row_purity r, row_unit r, row_price r,
      row_hash r, Str ''...'']"

definition js_slice16 :: "jsval \<Rightarrow> js_error + jsval" where
  \<comment> \<open>\<^verbatim>\<open>v.slice(0, 16)\<close>: strings and arrays have the method, calling it elsewhere throws\<close>
  "js_slice16 v =
     (case v of Str s \<Rightarrow> Inr (Str (take 16 s)) | Arr xs \<Rightarrow> Inr (Arr (take 16 xs))
      | _ \<Rightarrow> Inl TypeError)"

fun filter_priced :: "jsval list \<Rightarrow> js_error + jsval list" where
  \<comment> \<open>\<^verbatim>\<open>.filter((b) => b.data.price)\<close>\<close>
  "filter_priced [] = Inr []"
| "filter_priced (b # bs) =
     (case js_get b ''data'' of
        Inl e \<Rightarrow> Inl e
      | Inr d \<Rightarrow>
     (case js_get d ''price'' of
        Inl e \<Rightarrow> Inl e
      | Inr price \<Rightarrow>
     (case filter_priced bs of
        Inl e \<Rightarrow> Inl e
      | Inr kept \<Rightarrow> Inr (if truthy price then b # kept else kept))))"

definition render_row :: "platform \<Rightarrow> jsval \<Rightarrow> js_error + row" where
  "render_row pf b =
     (case js_get b ''data'' of
        Inl e \<Rightarrow> Inl e
      | Inr d \<Rightarrow>
     (case js_get d ''date'' of
        Inl e \<Rightarrow> Inl e
      | Inr date \<Rightarrow>
     (case js_slice16 (js_prop b ''hash'') of
        Inl e \<Rightarrow> Inl e
      | Inr h \<Rightarrow>
          Inr \<lparr>row_index = js_prop b ''index'',
               row_date = date,
               row_metal = js_toUpperCase pf (js_String pf (js_or (js_prop d ''metal'') (Str []))),
               row_purity = js_or (js_prop d ''purity'') (Str ''-''),
               row_unit = js_prop d ''unit'',
               row_price = js_prop d ''price'',
               row_hash = h\<rparr>)))"

fun render_rows :: "platform \<Rightarrow> jsval list \<Rightarrow> js_error + row list" where
  \<comment> \<open>\<^verbatim>\<open>.map((b) => <tr>...</tr>)\<close>\<close>
  "render_rows pf [] = Inr []"
| "render_rows pf (b # bs) =
     (case render_row pf b of
        Inl e \<Rightarrow> Inl e
      | Inr r \<Rightarrow>
     (case render_rows pf bs of
        Inl e \<Rightarrow> Inl e
      | Inr rs \<Rightarrow> Inr (r # rs)))"

text \<open>
  The blockchain section for the state \<^verbatim>\<open>chain\<close>: \<open>None\<close> is the text
  \<^verbatim>\<open>Loading blockchain...\<close>. Where \<^verbatim>\<open>chain\<close> is not an object the section throws at
  \<^verbatim>\<open>chain.blocks.filter\<close>, whatever its header reads. The JSX is evaluated first, with
  its TypeErrors; React then renders the children of the header line and of the cells,
  and throws where one of them is a plain object.
\<close>

definition render_chain :: "platform \<Rightarrow> jsval \<Rightarrow> js_error + chain_table option" where
  "render_chain pf chain =
     (if \<not> truthy chain then Inr None
      else
        (case js_prop chain ''blocks'' of
           Arr bs \<Rightarrow>
             (case filter_priced bs of
                Inl e \<Rightarrow> Inl e
              | Inr kept \<Rightarrow>
             (case render_rows pf kept of
                Inl e \<Rightarrow> Inl e
              | Inr rows \<Rightarrow>
                  (let t = \<lparr>tbl_length = js_prop chain ''length'',
                            tbl_valid = js_String pf (js_prop chain ''is_valid''),
                            tbl_prefix = js_prop chain ''difficulty_prefix'',
                            tbl_rows = rows\<rparr>
                   in if list_all react_child_ok
                           ([tbl_length t, Str (tbl_valid t), tbl_prefix t]
                            @ concat (map row_children rows))
                      then Inr (Some t) else Inl InvalidChild)))
         | _ \<Rightarrow> Inl TypeError))"

text \<open>
  The prediction card for the state \<^verbatim>\<open>prediction\<close>: \<open>None\<close> is the text
  \<^verbatim>\<open>No prediction yet.\<close>. The card has the series line (the metal in upper case, and the
  purity when it is truthy) and then either the three estimates, each followed by the
  currency, or the message. React throws where one of the values shown is a plain object.
\<close>

datatype card_body =
    Estimates jsval jsval jsval jsval
  | Message jsval

record prediction_card =
  card_metal :: string
  card_purity :: "jsval option"
  card_body :: card_body

definition card_children :: "prediction_card \<Rightarrow> jsval list" where
  \<comment> \<open>the values the card shows, in the order of the JSX\<close>
  "card_children c =
     Str (card_metal c)
     # (case card_purity c of None \<Rightarrow> [] | Some purity \<Rightarrow> [purity])
     @ (case card_body c of
          Estimates a b k cur \<Rightarrow> [a, cur, b, cur, k, cur]
        | Message m \<Rightarrow> [m])"

definition render_prediction :: "platform \<Rightarrow> jsval \<Rightarrow> js_error + prediction_card option" where
  "render_prediction pf prediction =
     (if \<not> truthy prediction then Inr None
      else
        (case js_prop prediction ''metal'' of
           Str metal \<Rightarrow>
             (let c =
                \<lparr>card_metal = js_toUpperCase pf metal,
                 card_purity =
                   (if truthy (js_prop prediction ''purity'')
                    then Some (js_prop prediction ''purity'') else None),
                 card_body =
                   (if truthy (js_prop prediction ''can_predict'')
                    then Estimates (js_prop prediction ''predicted_price_inr_1g'')
                           (js_prop prediction ''predicted_price_inr_10g'')
                           (js_prop prediction ''predicted_price_inr_1kg'')
                           (js_prop prediction ''currency'')
                    else Message (js_prop prediction ''message''))\<rparr>
              in if list_all react_child_ok (card_children c) then Inr (Some c)
                 else Inl InvalidChild)
         | _ \<Rightarrow> Inl TypeError))"

definition prices_shown :: "prediction_card \<Rightarrow> jsval list" where
  "prices_shown c = (case card_body c of Estimates a b k cur \<Rightarrow> [a, b, k] | Message m \<Rightarrow> [])"

section \<open>A platform for evaluation\<close>

text \<open>
  An instance of the built-ins, to run the model at concrete inputs. It agrees with
  ECMAScript on ASCII strings, on numerals written with decimal digits only (at most
  fifteen of them), and on integers of magnitude below \<open>10^21\<close>; it is not meant for
  anything else.
\<close>

definition ascii_space :: "char \<Rightarrow> bool" where
  "ascii_space c = (c \<in> set [CHR 0x09, CHR 0x0A, CHR 0x0B, CHR 0x0C, CHR 0x0D, CHR '' ''])"

definition ascii_trim :: "string \<Rightarrow> string" where
  "ascii_trim s = rev (dropWhile ascii_space (rev (dropWhile ascii_space s)))"

definition ascii_lower :: "string \<Rightarrow> string" where
  "ascii_lower s =
     map (\<lambda>c. case map_of (zip ''ABCDEFGHIJKLMNOPQRSTUVWXYZ'' ''abcdefghijklmnopqrstuvwxyz'') c of
                None \<Rightarrow> c | Some l \<Rightarrow> l) s"

definition ascii_upper :: "string \<Rightarrow> string" where
  "ascii_upper s =
     map (\<lambda>c. case map_of (zip ''abcdefghijklmnopqrstuvwxyz'' ''ABCDEFGHIJKLMNOPQRSTUVWXYZ'') c of
                None \<Rightarrow> c | Some u \<Rightarrow> u) s"

definition digit_value :: "char \<Rightarrow> nat option" where
  "digit_value c = map_of (zip ''0123456789'' [0, 1, 2, 3, 4, 5, 6, 7, 8, 9]) c"

fun digits_value :: "nat \<Rightarrow> string \<Rightarrow> nat option" where
  "digits_value acc [] = Some acc"
| "digits_value acc (c # cs) =
     (case digit_value c of None \<Rightarrow> None | Some d \<Rightarrow> digits_value (10 * acc + d) cs)"

definition digits_Number :: "string \<Rightarrow> jsnum" where
  "digits_Number s =
     (case digits_value 0 (ascii_trim s) of None \<Rightarrow> NaN | Some n \<Rightarrow> Finite (of_nat n))"

fun nat_digits :: "nat \<Rightarrow> string" where
  "nat_digits n =
     (if n < 10 then [''0123456789'' ! n] else nat_digits (n div 10) @ [''0123456789'' ! (n mod 10)])"

declare nat_digits.simps [simp del]

definition integer_numToString :: "jsnum \<Rightarrow> string" where
  "integer_numToString n =
     (case n of
        NaN \<Rightarrow> ''NaN''
      | PosInfinity \<Rightarrow> ''Infinity''
      | NegInfinity \<Rightarrow> ''-Infinity''
      | Finite r \<Rightarrow>
          (let i = fst (quotient_of r) in
           if i < 0 then ''-'' @ nat_digits (nat (- i)) else nat_digits (nat i)))"

definition sample_platform :: platform where
  "sample_platform =
     \<lparr>js_trim = ascii_trim, js_toLowerCase = ascii_lower, js_toUpperCase = ascii_upper,
      js_Number = digits_Number, js_numToString = integer_numToString\<rparr>"

definition respond_with :: "response \<Rightarrow> fetch" where
  \<comment> \<open>a \<^verbatim>\<open>fetch\<close> that answers every request with the same response\<close>
  "respond_with res req = Inr res"

definition answering_only :: "request \<Rightarrow> response \<Rightarrow> fetch" where
  \<comment> \<open>a \<^verbatim>\<open>fetch\<close> that answers one request and fails on every other\<close>
  "answering_only expected res req = (if req = expected then Inr res else Inl TypeError)"

definition scripted_window :: "(string \<times> string) list \<Rightarrow> bool \<Rightarrow> window" where
  \<comment> \<open>a user who answers each prompt by its message and every confirmation alike\<close>
  "scripted_window answers ok =
     \<lparr>prompt = (\<lambda>msg d. map_of answers msg), confirm = (\<lambda>msg. ok)\<rparr>"

section \<open>The ledger engine\<close>

text \<open>
  The server that owns the ledger is not among the sources of the client. The ledger is
  modelled from the specification (sections 3, 4.1 to 4.6 and 9): blocks, sealing, the three
  mutations and the validity check.
\<close>

definition leap_year :: "nat \<Rightarrow> bool" where
  "leap_year y = (y mod 4 = 0 \<and> (y mod 100 \<noteq> 0 \<or> y mod 400 = 0))"

definition days_in_month :: "nat \<Rightarrow> nat \<Rightarrow> nat" where
  "days_in_month y m =
     (if m = 2 then (if leap_year y then 29 else 28)
      else if m = 4 \<or> m = 6 \<or> m = 9 \<or> m = 11 then 30 else 31)"

definition is_calendar_date :: "string \<Rightarrow> bool" where
  \<comment> \<open>Modelled from the spec: the server's date parser is missing; section 3 has \<^verbatim>\<open>date\<close>
      as a calendar date in ISO form, \<^verbatim>\<open>YYYY-MM-DD\<close>.\<close>
  "is_calendar_date s =
     (length s = 10 \<and> s ! 4 = CHR ''-'' \<and> s ! 7 = CHR ''-'' \<and>
      (case (digits_value 0 (take 4 s), digits_value 0 (take 2 (drop 5 s)),
             digits_value 0 (drop 8 s)) of
         (Some y, Some m, Some d) \<Rightarrow> 1 \<le> m \<and> m \<le> 12 \<and> 1 \<le> d \<and> d \<le> days_in_month y m
       | _ \<Rightarrow> False))"

record price_point =
  pt_date :: string
  pt_metal :: string
  pt_purity :: "string option"
  pt_unit :: string
  pt_price :: jsnum

definition validate :: "price_point \<Rightarrow> string option" where
  \<comment> \<open>Modelled from the spec: the server's validation is missing; section 4.3 lists the
      checks. The result names the offending field, \<open>None\<close> when there is none.\<close>
  "validate p =
     (if \<not> is_calendar_date (pt_date p) then Some ''date''
      else if pt_metal p \<notin> set [''silver'', ''gold'', ''platinum''] then Some ''metal''
      else if \<not> (if pt_metal p = ''gold''
                  then (case pt_purity p of None \<Rightarrow> False
                        | Some g \<Rightarrow> g \<in> set [''18K'', ''22K'', ''24K''])
                  else pt_purity p = None) then Some ''purity''
      else if pt_unit p \<notin> set [''1g'', ''10g'', ''1kg''] then Some ''unit''
      else if \<not> js_isFinite (pt_price p) \<or> js_le_zero (pt_price p) then Some ''price''
      else None)"

record block =
  blk_index :: nat
  blk_timestamp :: nat
  blk_payload :: "price_point option"
  blk_previous_hash :: string
  blk_seal :: nat
  blk_hash :: string

type_synonym ledger = "block list"

text \<open>
  The configuration: the Hasher of section 4.1 (any function of the five fields), the
  difficulty prefix, the iteration cap of the seal search (section 9) and the fixed
  \<^verbatim>\<open>previous_hash\<close> of the genesis block.
\<close>

record config =
  cfg_hasher :: "nat \<Rightarrow> nat \<Rightarrow> price_point option \<Rightarrow> string \<Rightarrow> nat \<Rightarrow> string"
  cfg_prefix :: string
  cfg_cap :: nat
  cfg_genesis_previous :: string

datatype ledger_error = ValidationError string | NotFoundError | SealExhausted

definition block_digest :: "config \<Rightarrow> block \<Rightarrow> nat \<Rightarrow> string" where
  \<comment> \<open>Modelled from the spec: the Hasher is missing; section 3 has it over the index, the
      timestamp, the payload, the previous hash and the seal.\<close>
  "block_digest cfg b s =
     cfg_hasher cfg (blk_index b) (blk_timestamp b) (blk_payload b) (blk_previous_hash b) s"

fun seal_search :: "config \<Rightarrow> block \<Rightarrow> nat \<Rightarrow> nat \<Rightarrow> block option" where
  \<comment> \<open>Modelled from the spec: sealing is missing; section 4.2 tries the seals in increasing
      order, section 9 bounds the search by an iteration cap (here the fuel).\<close>
  "seal_search cfg b 0 s = None"
| "seal_search cfg b (Suc fuel) s =
     (if prefix (cfg_prefix cfg) (block_digest cfg b s)
      then Some (b\<lparr>blk_seal := s, blk_hash := block_digest cfg b s\<rparr>)
      else seal_search cfg b fuel (Suc s))"

definition seal :: "config \<Rightarrow> block \<Rightarrow> block option" where
  "seal cfg b = seal_search cfg b (cfg_cap cfg) 0"

fun reseal :: "config \<Rightarrow> string \<Rightarrow> block list \<Rightarrow> block list option" where
  \<comment> \<open>Modelled from the spec: the cascade of sections 4.4 and 4.5 is missing; each block is
      sealed again, in ascending order, on the hash of its freshly sealed predecessor.\<close>
  "reseal cfg prev [] = Some []"
| "reseal cfg prev (b # bs) =
     (case seal cfg (b\<lparr>blk_previous_hash := prev\<rparr>) of
        None \<Rightarrow> None
      | Some b' \<Rightarrow>
          (case reseal cfg (blk_hash b') bs of
             None \<Rightarrow> None
           | Some bs' \<Rightarrow> Some (b' # bs')))"

definition create_ledger :: "config \<Rightarrow> nat \<Rightarrow> ledger_error + ledger" where
  \<comment> \<open>Modelled from the spec: the creation of the ledger is missing; section 3 has a
      genesis block at index 0 with an empty payload and the fixed previous hash.\<close>
  "create_ledger cfg now =
     (case seal cfg \<lparr>blk_index = 0, blk_timestamp = now, blk_payload = None,
                      blk_previous_hash = cfg_genesis_previous cfg, blk_seal = 0,
                      blk_hash = []\<rparr> of
        None \<Rightarrow> Inl SealExhausted
      | Some g \<Rightarrow> Inr [g])"

definition add :: "config \<Rightarrow> nat \<Rightarrow> price_point \<Rightarrow> ledger \<Rightarrow> ledger_error + ledger" where
  \<comment> \<open>Modelled from the spec: add is missing; section 4.3. A ledger holds its genesis
      block (section 3); the empty list is no ledger and is refused.\<close>
  "add cfg now p l =
     (case validate p of
        Some field \<Rightarrow> Inl (ValidationError field)
      | None \<Rightarrow>
          (case l of
             [] \<Rightarrow> Inl NotFoundError
           | g # bs \<Rightarrow>
               (case seal cfg \<lparr>blk_index = length l, blk_timestamp = now,
                                blk_payload = Some p, blk_previous_hash = blk_hash (last l),
                                blk_seal = 0, blk_hash = []\<rparr> of
                  None \<Rightarrow> Inl SealExhausted
                | Some b \<Rightarrow> Inr (l @ [b]))))"

definition update :: "config \<Rightarrow> nat \<Rightarrow> price_point \<Rightarrow> ledger \<Rightarrow> ledger_error + ledger" where
  \<comment> \<open>Modelled from the spec: update is missing; section 4.4.\<close>
  "update cfg i p l =
     (if i = 0 \<or> length l \<le> i then Inl NotFoundError
      else
        (case validate p of
           Some field \<Rightarrow> Inl (ValidationError field)
         | None \<Rightarrow>
             (case reseal cfg (blk_hash (l ! (i - 1)))
                     ((l ! i)\<lparr>blk_payload := Some p\<rparr> # drop (Suc i) l) of
                None \<Rightarrow> Inl SealExhausted
              | Some resealed \<Rightarrow> Inr (take i l @ resealed))))"

definition delete :: "config \<Rightarrow> nat \<Rightarrow> ledger \<Rightarrow> ledger_error + ledger" where
  \<comment> \<open>Modelled from the spec: delete is missing; section 4.5.\<close>
  "delete cfg i l =
     (if i = 0 \<or> length l \<le> i then Inl NotFoundError
      else
        (case reseal cfg (blk_hash (l ! (i - 1)))
                (map (\<lambda>b. b\<lparr>blk_index := blk_index b - 1\<rparr>) (drop (Suc i) l)) of
           None \<Rightarrow> Inl SealExhausted
         | Some resealed \<Rightarrow> Inr (take i l @ resealed)))"

definition sealed :: "config \<Rightarrow> block \<Rightarrow> bool" where
  \<comment> \<open>checks (a) and (b) of section 4.6 on one block\<close>
  "sealed cfg b =
     (blk_hash b = block_digest cfg b (blk_seal b) \<and> prefix (cfg_prefix cfg) (blk_hash b))"

fun valid_from :: "config \<Rightarrow> string \<Rightarrow> block list \<Rightarrow> bool" where
  "valid_from cfg prev [] = True"
| "valid_from cfg prev (b # bs) =
     (sealed cfg b \<and> blk_previous_hash b = prev \<and> valid_from cfg (blk_hash b) bs)"

definition is_valid :: "config \<Rightarrow> ledger \<Rightarrow> bool" where
  \<comment> \<open>Modelled from the spec: the validity check is missing; section 4.6 walks the chain
      from index 1 to the end.\<close>
  "is_valid cfg l = (case l of [] \<Rightarrow> True | g # bs \<Rightarrow> valid_from cfg (blk_hash g) bs)"

definition well_sealed :: "config \<Rightarrow> ledger \<Rightarrow> bool" where
  \<comment> \<open>invariants 1 to 3 of section 3 on every block of a ledger, the genesis block included\<close>
  "well_sealed cfg l = (l \<noteq> [] \<and> valid_from cfg (blk_previous_hash (hd l)) l)"

datatype operation = Add nat price_point | Update nat price_point | Delete nat

fun apply_operation :: "config \<Rightarrow> operation \<Rightarrow> ledger \<Rightarrow> ledger_error + ledger" where
  "apply_operation cfg (Add now p) l = add cfg now p l"
| "apply_operation cfg (Update i p) l = update cfg i p l"
| "apply_operation cfg (Delete i) l = delete cfg i l"

fun run :: "config \<Rightarrow> operation list \<Rightarrow> ledger \<Rightarrow> ledger_error + ledger" where
  \<comment> \<open>a sequence of operations that all succeed; the first failure ends it\<close>
  "run cfg [] l = Inr l"
| "run cfg (x # xs) l =
     (case apply_operation cfg x l of Inl e \<Rightarrow> Inl e | Inr l' \<Rightarrow> run cfg xs l')"

text \<open>
  A configuration to run the ledger at concrete inputs: a small stand-in for the digest,
  which a cryptographic hash replaces. The results below hold for every configuration.
\<close>

definition toy_hasher :: "nat \<Rightarrow> nat \<Rightarrow> price_point option \<Rightarrow> string \<Rightarrow> nat \<Rightarrow> string" where
  "toy_hasher i t p prev s =
     nat_digits ((i + t + s + length prev
        + (case p of None \<Rightarrow> 0 | Some q \<Rightarrow> length (pt_date q) + length (pt_unit q))) mod 5)
     @ nat_digits (i + 7 * s)"

definition toy_config :: config where
  "toy_config =
     \<lparr>cfg_hasher = toy_hasher, cfg_prefix = ''0'', cfg_cap = 8, cfg_genesis_previous = ''0''\<rparr>"

section \<open>The blockchain table\<close>

lemma filter_priced_ok:
  assumes "\<forall>b\<in>set bs. \<not> nullish (js_prop b ''data'')"
  shows "filter_priced bs = Inr (filter (\<lambda>b. truthy (js_prop (js_prop b ''data'') ''price'')) bs)"
  using assms
proof (induction bs)
  case Nil
  then show ?case by simp
next
  case (Cons b bs)
  from Cons.prems have d: "\<not> nullish (js_prop b ''data'')" by simp
  then have "\<not> nullish b" by (cases b) (auto simp: nullish_def)
  with d Cons show ?case by (simp add: js_get_def)
qed

lemma render_rows_ok:
  assumes "\<forall>b\<in>set bs. \<not> nullish (js_prop b ''data'') \<and> (\<exists>h. js_prop b ''hash'' = Str h)"
  shows "render_rows pf bs = Inr (map (\<lambda>b.
           \<lparr>row_index = js_prop b ''index'',
            row_date = js_prop (js_prop b ''data'') ''date'',
            row_metal = js_toUpperCase pf
              (js_String pf (js_or (js_prop (js_prop b ''data'') ''metal'') (Str []))),
            row_purity = js_or (js_prop (js_prop b ''data'') ''purity'') (Str ''-''),
            row_unit = js_prop (js_prop b ''data'') ''unit'',
            row_price = js_prop (js_prop b ''data'') ''price'',
            row_hash = Str (take 16 (case js_prop b ''hash'' of Str h \<Rightarrow> h | _ \<Rightarrow> []))\<rparr>) bs)"
  using assms
proof (induction bs)
  case Nil
  then show ?case by simp
next
  case (Cons b bs)
  from Cons.prems have d: "\<not> nullish (js_prop b ''data'')"
    and h: "\<exists>h. js_prop b ''hash'' = Str h" by simp_all
  from d have "\<not> nullish b" by (cases b) (auto simp: nullish_def)
  with d h Cons show ?case by (auto simp: js_get_def render_row_def js_slice16_def)
qed

lemma falsy_child_ok: "\<not> truthy v \<Longrightarrow> react_child_ok v"
  by (cases v) auto

lemma or_child_ok: "react_child_ok (js_or v (Str s)) = react_child_ok v"
  by (cases "truthy v") (auto simp: js_or_def falsy_child_ok)

text \<open>
  C1, as the code has it. The table reads the payload of a block from the object under
  its key \<^verbatim>\<open>data\<close>. For every chain whose blocks each carry such an object, and whose
  shown values are values React renders (no plain objects: the chain's length and
  difficulty prefix, and of each block that is shown the index, date, purity, unit and
  price, with a string hash), the section renders, and its rows are, in order, the
  blocks whose \<^verbatim>\<open>data.price\<close> is truthy; a genesis block without a price is left out.
  The cells of a row are the block's \<^verbatim>\<open>index\<close> and, read from \<^verbatim>\<open>data\<close>, the date, the
  metal (in upper case, the empty string when there is none), the purity (a dash when
  there is none), the unit and the price.
\<close>

theorem table_shows_priced_blocks:
  assumes "js_prop chain ''blocks'' = Arr bs"
    and "react_child_ok (js_prop chain ''length'')"
    and "react_child_ok (js_prop chain ''difficulty_prefix'')"
    and "\<forall>b\<in>set bs. \<not> nullish (js_prop b ''data'')"
    and "\<forall>b\<in>set bs. truthy (js_prop (js_prop b ''data'') ''price'')
           \<longrightarrow> (\<exists>h. js_prop b ''hash'' = Str h)
               \<and> react_child_ok (js_prop b ''index'')
               \<and> react_child_ok (js_prop (js_prop b ''data'') ''date'')
               \<and> react_child_ok (js_prop (js_prop b ''data'') ''purity'')
               \<and> react_child_ok (js_prop (js_prop b ''data'') ''unit'')
               \<and> react_child_ok (js_prop (js_prop b ''data'') ''price'')"
  shows "\<exists>t kept. render_chain pf chain = Inr (Some t)
     \<and> kept = filter (\<lambda>b. truthy (js_prop (js_prop b ''data'') ''price'')) bs
     \<and> map row_index (tbl_rows t) = map (\<lambda>b. js_prop b ''index'') kept
     \<and> map row_date (tbl_rows t) = map (\<lambda>b. js_prop (js_prop b ''data'') ''date'') kept
     \<and> map row_metal (tbl_rows t) =
         map (\<lambda>b. js_toUpperCase pf
               (js_String pf (js_or (js_prop (js_prop b ''data'') ''metal'') (Str [])))) kept
     \<and> map row_purity (tbl_rows t) =
         map (\<lambda>b. js_or (js_prop (js_prop b ''data'') ''purity'') (Str ''-'')) kept
     \<and> map row_unit (tbl_rows t) = map (\<lambda>b. js_prop (js_prop b ''data'') ''unit'') kept
     \<and> map row_price (tbl_rows t) = map (\<lambda>b. js_prop (js_prop b ''data'') ''price'') kept"
proof -
  from assms(1) obtain fs where "chain = Obj fs" by (cases chain) auto
  then have t: "truthy chain" by simp
  let ?kept = "filter (\<lambda>b. truthy (js_prop (js_prop b ''data'') ''price'')) bs"
  let ?row = "\<lambda>b.
           \<lparr>row_index = js_prop b ''index'',
            row_date = js_prop (js_prop b ''data'') ''date'',
            row_metal = js_toUpperCase pf
              (js_String pf (js_or (js_prop (js_prop b ''data'') ''metal'') (Str []))),
            row_purity = js_or (js_prop (js_prop b ''data'') ''purity'') (Str ''-''),
            row_unit = js_prop (js_prop b ''data'') ''unit'',
            row_price = js_prop (js_prop b ''data'') ''price'',
            row_hash = Str (take 16 (case js_prop b ''hash'' of Str h \<Rightarrow> h | _ \<Rightarrow> []))\<rparr>"
  have f: "filter_priced bs = Inr ?kept" using assms(4) by (rule filter_priced_ok)
  have "\<forall>b\<in>set ?kept. \<not> nullish (js_prop b ''data'') \<and> (\<exists>h. js_prop b ''hash'' = Str h)"
    using assms(4,5) by simp
  then have r: "render_rows pf ?kept = Inr (map ?row ?kept)" by (rule render_rows_ok)
  have "\<forall>b\<in>set ?kept. list_all react_child_ok (row_children (?row b))"
    using assms(5) by (simp add: row_children_def or_child_ok)
  then have cells: "list_all react_child_ok (concat (map row_children (map ?row ?kept)))"
    unfolding list_all_iff by auto
  have "render_chain pf chain =
      Inr (Some \<lparr>tbl_length = js_prop chain ''length'',
                 tbl_valid = js_String pf (js_prop chain ''is_valid''),
                 tbl_prefix = js_prop chain ''difficulty_prefix'',
                 tbl_rows = map ?row ?kept\<rparr>)"
    unfolding render_chain_def using t assms(1,2,3) f r cells
    by (simp add: Let_def del: map_map)
  then show ?thesis by (simp add: o_def)
qed

theorem table_shows_priced_blocks_witness:
  "\<exists>t. render_chain sample_platform
      (Obj [(''length'', Num (Finite 2)), (''is_valid'', Bool True),
            (''difficulty_prefix'', Str ''00''),
            (''blocks'', Arr
               [Obj [(''index'', Num (Finite 0)),
                     (''data'', Obj [(''message'', Str ''Genesis Block'')]),
                     (''hash'', Str ''00f3'')],
                Obj [(''index'', Num (Finite 1)),
                     (''data'', Obj [(''date'', Str ''2026-02-21''), (''metal'', Str ''silver''),
                        (''purity'', Null), (''unit'', Str ''1g''),
                        (''price'', Num (Finite 92))]),
                     (''hash'', Str ''00a7'')]])]) = Inr (Some t)
     \<and> map row_index (tbl_rows t) = [Num (Finite 1)]
     \<and> map row_date (tbl_rows t) = [Str ''2026-02-21'']
     \<and> map row_metal (tbl_rows t) = [''SILVER'']
     \<and> map row_purity (tbl_rows t) = [Str ''-'']
     \<and> map row_unit (tbl_rows t) = [Str ''1g'']
     \<and> map row_price (tbl_rows t) = [Num (Finite 92)]"
proof -
  let ?genesis = "Obj [(''index'', Num (Finite 0)),
    (''data'', Obj [(''message'', Str ''Genesis Block'')]), (''hash'', Str ''00f3'')]"
  let ?silver = "Obj [(''index'', Num (Finite 1)),
    (''data'', Obj [(''date'', Str ''2026-02-21''), (''metal'', Str ''silver''),
       (''purity'', Null), (''unit'', Str ''1g''), (''price'', Num (Finite 92))]),
    (''hash'', Str ''00a7'')]"
  let ?chain = "Obj [(''length'', Num (Finite 2)), (''is_valid'', Bool True),
    (''difficulty_prefix'', Str ''00''), (''blocks'', Arr [?genesis, ?silver])]"
  have blocks: "js_prop ?chain ''blocks'' = Arr [?genesis, ?silver]" by simp
  have len: "react_child_ok (js_prop ?chain ''length'')" by simp
  have pre: "react_child_ok (js_prop ?chain ''difficulty_prefix'')" by simp
  have payloads: "\<forall>b\<in>set [?genesis, ?silver]. \<not> nullish (js_prop b ''data'')"
    by (simp add: nullish_def)
  have shown: "\<forall>b\<in>set [?genesis, ?silver]. truthy (js_prop (js_prop b ''data'') ''price'')
      \<longrightarrow> (\<exists>h. js_prop b ''hash'' = Str h)
          \<and> react_child_ok (js_prop b ''index'')
          \<and> react_child_ok (js_prop (js_prop b ''data'') ''date'')
          \<and> react_child_ok (js_prop (js_prop b ''data'') ''purity'')
          \<and> react_child_ok (js_prop (js_prop b ''data'') ''unit'')
          \<and> react_child_ok (js_prop (js_prop b ''data'') ''price'')"
    by simp
  have upper: "ascii_upper ''silver'' = ''SILVER''" by (simp add: ascii_upper_def)
  from table_shows_priced_blocks [OF blocks len pre payloads shown, of sample_platform] upper
  show ?thesis by (simp add: js_or_def sample_platform_def)
qed

text \<open>A block whose date is a plain object: React throws, and no table is shown.\<close>

lemma object_cell_not_rendered:
  "render_chain sample_platform
     (Obj [(''length'', Num (Finite 1)), (''is_valid'', Bool True),
           (''difficulty_prefix'', Str ''00''),
           (''blocks'', Arr
              [Obj [(''index'', Num (Finite 1)),
                    (''data'', Obj [(''date'', Obj [(''year'', Num (Finite 2026))]),
                       (''metal'', Str ''silver''), (''unit'', Str ''1g''),
                       (''price'', Num (Finite 92))]),
                    (''hash'', Str ''00a7'')]])])
   = Inl InvalidChild"
  by (simp add: render_chain_def render_row_def js_get_def nullish_def js_slice16_def
      row_children_def js_or_def)

theorem flat_blocks_do_not_render:
  "render_chain sample_platform
     (Obj [(''length'', Num (Finite 2)), (''is_valid'', Bool True),
           (''difficulty_prefix'', Str ''00''),
           (''blocks'', Arr
              [Obj [(''index'', Num (Finite 0)), (''hash'', Str ''00f3'')],
               Obj [(''index'', Num (Finite 1)), (''date'', Str ''2026-02-21''),
                    (''metal'', Str ''silver''), (''unit'', Str ''1g''),
                    (''price'', Num (Finite 92)), (''hash'', Str ''00a7'')]])])
   = Inl TypeError"
  by code_simp

section \<open>The add-price form\<close>

text \<open>
  C2. Whatever the state of the add-price form, the body of the POST request built on
  submit has a purity that is present (neither missing, nor null, nor empty) exactly when
  the metal is gold, and a null purity for every other metal. A gold form whose purity
  is still the empty placeholder is not submitted: the purity selector is required then.
\<close>

theorem submit_purity_iff_gold:
  "(\<forall>req. submit pf f = Some req \<longrightarrow>
      (\<exists>payload. req_method req = POST \<and> req_body req = Some payload
         \<and> js_prop payload ''metal'' = Str (form_metal f)
         \<and> ((js_prop payload ''purity'' \<noteq> Undefined \<and> js_prop payload ''purity'' \<noteq> Null
              \<and> js_prop payload ''purity'' \<noteq> Str [])
             \<longleftrightarrow> js_prop payload ''metal'' = Str ''gold'')
         \<and> (form_metal f \<noteq> ''gold'' \<longrightarrow> js_prop payload ''purity'' = Null)))
   \<and> (form_metal f = ''gold'' \<and> form_purity f = [] \<longrightarrow> submit pf f = None)"
  by (auto simp: submit_def form_valid_def addPrice_request_def handleSubmit_payload_def
      split: if_splits)

theorem submit_purity_iff_gold_witness:
  "submit sample_platform
     \<lparr>form_date = ''2026-02-21'', form_metal = ''gold'', form_purity = ''22K'',
      form_unit = ''10g'', form_price = ''64200''\<rparr>
   = Some (addPrice_request
       (Obj [(''date'', Str ''2026-02-21''), (''metal'', Str ''gold''), (''purity'', Str ''22K''),
             (''unit'', Str ''10g''), (''price'', Num (Finite 64200))]))
   \<and> submit sample_platform
       \<lparr>form_date = ''2026-02-21'', form_metal = ''gold'', form_purity = [],
        form_unit = ''10g'', form_price = ''64200''\<rparr> = None"
proof -
  let ?f = "\<lparr>form_date = ''2026-02-21'', form_metal = ''gold'', form_purity = ''22K'',
      form_unit = ''10g'', form_price = ''64200''\<rparr>"
  let ?g = "\<lparr>form_date = ''2026-02-21'', form_metal = ''gold'', form_purity = [],
      form_unit = ''10g'', form_price = ''64200''\<rparr>"
  have price: "digits_Number ''64200'' = Finite 64200"
    by (simp add: digits_Number_def ascii_trim_def ascii_space_def digit_value_def)
  have sent: "submit sample_platform ?f = Some (addPrice_request
       (Obj [(''date'', Str ''2026-02-21''), (''metal'', Str ''gold''), (''purity'', Str ''22K''),
             (''unit'', Str ''10g''), (''price'', Num (Finite 64200))]))"
    unfolding submit_def form_valid_def handleSubmit_payload_def sample_platform_def
    by (simp add: price)
  have g: "form_metal ?g = ''gold'' \<and> form_purity ?g = []" by simp
  have "submit sample_platform ?g = None"
    using submit_purity_iff_gold [of sample_platform ?g, THEN conjunct2, rule_format, OF g] .
  with sent show ?thesis by (rule conjI)
qed

section \<open>The update and delete dialogs\<close>

lemma handleUpdate_completed:
  assumes "js_get block ''data'' = Inr current" and "\<not> nullish current"
    and "prompt_date win current = Some newDate"
    and "prompt_unit win current = Some unitInput"
    and "js_prop current ''metal'' = Str ''gold'' \<longrightarrow> prompt_purity win current = Some purityInput"
    and "prompt_price pf win current = Some priceInput"
  shows "handleUpdate pf win block =
     (if js_toLowerCase pf (js_trim pf unitInput) \<notin> set UNITS
      then Inr (Rejected ''Unit must be 1g, 10g, or 1kg'')
      else if js_prop current ''metal'' = Str ''gold''
              \<and> js_toUpperCase pf (js_trim pf purityInput) \<notin> set GOLD_PURITY
      then Inr (Rejected ''Gold purity must be 18K, 22K, or 24K'')
      else if \<not> js_isFinite (js_Number pf priceInput) \<or> js_le_zero (js_Number pf priceInput)
      then Inr (Rejected ''Price must be a positive number'')
      else Inr (Sent (updatePrice_request pf (js_prop block ''index'')
             (Obj [(''date'', Str newDate),
                   (''metal'', js_prop current ''metal''),
                   (''purity'', if js_prop current ''metal'' = Str ''gold''
                      then Str (js_toUpperCase pf (js_trim pf purityInput)) else Null),
                   (''unit'', Str (js_toLowerCase pf (js_trim pf unitInput))),
                   (''price'', Num (js_Number pf priceInput))]))))"
  using assms by (simp add: handleUpdate_def js_get_def Let_def)

lemma positive_price:
  "(\<not> js_isFinite n \<or> js_le_zero n) = (\<not> (\<exists>r. 0 < r \<and> n = Finite r))"
  by (cases n) (auto simp: js_isFinite_def js_le_zero_def)

lemma sample_strings:
  "ascii_lower (ascii_trim '' 10G '') = ''10g''"
  "ascii_lower (ascii_trim ''1g'') = ''1g''"
  "ascii_lower (ascii_trim ''1 gram'') = ''1 gram''"
  "ascii_upper (ascii_trim ''22k'') = ''22K''"
  "ascii_upper ''silver'' = ''SILVER''"
  "ascii_upper ''gold'' = ''GOLD''"
  "digits_Number ''95'' = Finite 95"
  "digits_Number ''64500'' = Finite 64500"
  "integer_numToString (Finite 1) = ''1''"
  "integer_numToString (Finite 2) = ''2''"
  "integer_numToString (Finite 64200) = ''64200''"
  by (simp_all add: ascii_lower_def ascii_upper_def ascii_trim_def ascii_space_def
      digits_Number_def digit_value_def integer_numToString_def nat_digits.simps)

text \<open>A gold block of the table and a user who corrects its unit, purity and price.\<close>

lemma gold_update_sent:
  "handleUpdate sample_platform
     (scripted_window [(''Update date (YYYY-MM-DD):'', ''2026-02-23''),
        (''Update unit (1g / 10g / 1kg):'', '' 10G ''),
        (''Update gold purity (18K / 22K / 24K):'', ''22k''),
        (''Update price in INR for selected unit:'', ''64500'')] True)
     (Obj [(''index'', Num (Finite 2)),
           (''data'', Obj [(''date'', Str ''2026-02-22''), (''metal'', Str ''gold''),
              (''purity'', Str ''24K''), (''unit'', Str ''10g''),
              (''price'', Num (Finite 64200))]),
           (''hash'', Str ''00c1'')])
   = Inr (Sent (updatePrice_request sample_platform (Num (Finite 2))
       (Obj [(''date'', Str ''2026-02-23''), (''metal'', Str ''gold''),
             (''purity'', Str ''22K''), (''unit'', Str ''10g''),
             (''price'', Num (Finite 64500))])))"
  by (simp add: handleUpdate_def js_get_def nullish_def prompt_date_def prompt_unit_def
      prompt_purity_def prompt_price_def scripted_window_def sample_platform_def
      sample_strings UNITS_def GOLD_PURITY_def js_isFinite_def js_le_zero_def js_or_def)

text \<open>
  C3, as the code has it. For every completed update dialog on a block of the table (every
  prompt that is shown is answered): a request that is sent is a PUT whose payload has the
  date as it was entered, unchecked; a unit among 1g, 10g and 1kg; a purity that is present
  exactly when the block's metal is gold, and then one of 18K, 22K and 24K; and a finite
  price above zero. When the entered unit, purity or price fails its check, no request is
  sent and a non-empty error message is shown; when all three pass, the request is sent.
\<close>

theorem update_dialog_checks:
  assumes "js_get block ''data'' = Inr current" and "\<not> nullish current"
    and "prompt_date win current = Some newDate"
    and "prompt_unit win current = Some unitInput"
    and "js_prop current ''metal'' = Str ''gold'' \<longrightarrow> prompt_purity win current = Some purityInput"
    and "prompt_price pf win current = Some priceInput"
  shows
    "(\<forall>req. handleUpdate pf win block = Inr (Sent req) \<longrightarrow>
        (\<exists>payload. req_method req = PUT \<and> req_body req = Some payload
           \<and> js_prop payload ''date'' = Str newDate
           \<and> (\<exists>u\<in>set UNITS. js_prop payload ''unit'' = Str u)
           \<and> (js_prop payload ''purity'' \<noteq> Null \<longleftrightarrow> js_prop current ''metal'' = Str ''gold'')
           \<and> (js_prop current ''metal'' = Str ''gold''
                \<longrightarrow> (\<exists>g\<in>set GOLD_PURITY. js_prop payload ''purity'' = Str g))
           \<and> (\<exists>r. 0 < r \<and> js_prop payload ''price'' = Num (Finite r))))
     \<and> (js_toLowerCase pf (js_trim pf unitInput) \<notin> set UNITS
         \<or> (js_prop current ''metal'' = Str ''gold''
             \<and> js_toUpperCase pf (js_trim pf purityInput) \<notin> set GOLD_PURITY)
         \<or> \<not> (\<exists>r. 0 < r \<and> js_Number pf priceInput = Finite r)
         \<longrightarrow> requests_sent (handleUpdate pf win block) = []
             \<and> (\<exists>msg. error_shown (handleUpdate pf win block) = Some msg \<and> msg \<noteq> []))
     \<and> (js_toLowerCase pf (js_trim pf unitInput) \<in> set UNITS
         \<and> (js_prop current ''metal'' = Str ''gold''
             \<longrightarrow> js_toUpperCase pf (js_trim pf purityInput) \<in> set GOLD_PURITY)
         \<and> (\<exists>r. 0 < r \<and> js_Number pf priceInput = Finite r)
         \<longrightarrow> (\<exists>req. handleUpdate pf win block = Inr (Sent req)))"
  unfolding handleUpdate_completed [OF assms] positive_price
  by (auto simp: updatePrice_request_def requests_sent_def error_shown_def)

theorem update_dialog_checks_witness:
  "requests_sent (handleUpdate sample_platform
     (scripted_window [(''Update date (YYYY-MM-DD):'', ''2026-02-23''),
        (''Update unit (1g / 10g / 1kg):'', ''1 gram''),
        (''Update gold purity (18K / 22K / 24K):'', ''22k''),
        (''Update price in INR for selected unit:'', ''64500'')] True)
     (Obj [(''index'', Num (Finite 2)),
           (''data'', Obj [(''date'', Str ''2026-02-22''), (''metal'', Str ''gold''),
              (''purity'', Str ''24K''), (''unit'', Str ''10g''),
              (''price'', Num (Finite 64200))]),
           (''hash'', Str ''00c1'')])) = []
   \<and> (\<exists>msg. error_shown (handleUpdate sample_platform
     (scripted_window [(''Update date (YYYY-MM-DD):'', ''2026-02-23''),
        (''Update unit (1g / 10g / 1kg):'', ''1 gram''),
        (''Update gold purity (18K / 22K / 24K):'', ''22k''),
        (''Update price in INR for selected unit:'', ''64500'')] True)
     (Obj [(''index'', Num (Finite 2)),
           (''data'', Obj [(''date'', Str ''2026-02-22''), (''metal'', Str ''gold''),
              (''purity'', Str ''24K''), (''unit'', Str ''10g''),
              (''price'', Num (Finite 64200))]),
           (''hash'', Str ''00c1'')])) = Some msg \<and> msg \<noteq> [])"
proof -
  let ?cur = "Obj [(''date'', Str ''2026-02-22''), (''metal'', Str ''gold''),
    (''purity'', Str ''24K''), (''unit'', Str ''10g''), (''price'', Num (Finite 64200))]"
  let ?b = "Obj [(''index'', Num (Finite 2)), (''data'', ?cur), (''hash'', Str ''00c1'')]"
  let ?w = "scripted_window [(''Update date (YYYY-MM-DD):'', ''2026-02-23''),
        (''Update unit (1g / 10g / 1kg):'', ''1 gram''),
        (''Update gold purity (18K / 22K / 24K):'', ''22k''),
        (''Update price in INR for selected unit:'', ''64500'')] True"
  have a1: "js_get ?b ''data'' = Inr ?cur" by (simp add: js_get_def nullish_def)
  have a2: "\<not> nullish ?cur" by (simp add: nullish_def)
  have a3: "prompt_date ?w ?cur = Some ''2026-02-23''"
    by (simp add: prompt_date_def scripted_window_def)
  have a4: "prompt_unit ?w ?cur = Some ''1 gram''"
    by (simp add: prompt_unit_def scripted_window_def)
  have a5: "js_prop ?cur ''metal'' = Str ''gold'' \<longrightarrow> prompt_purity ?w ?cur = Some ''22k''"
    by (simp add: prompt_purity_def scripted_window_def)
  have a6: "prompt_price sample_platform ?w ?cur = Some ''64500''"
    by (simp add: prompt_price_def scripted_window_def)
  have bad: "js_toLowerCase sample_platform (js_trim sample_platform ''1 gram'') \<notin> set UNITS"
    by (simp add: sample_platform_def sample_strings UNITS_def)
  from update_dialog_checks [OF a1 a2 a3 a4 a5 a6] bad show ?thesis by blast
qed

theorem update_sends_unparsed_date:
  "handleUpdate sample_platform
     (scripted_window [(''Update date (YYYY-MM-DD):'', ''yesterday''),
        (''Update unit (1g / 10g / 1kg):'', ''1g''),
        (''Update price in INR for selected unit:'', ''95'')] True)
     (Obj [(''index'', Num (Finite 1)),
           (''data'', Obj [(''date'', Str ''2026-02-21''), (''metal'', Str ''silver''),
              (''purity'', Null), (''unit'', Str ''1g''), (''price'', Num (Finite 92))]),
           (''hash'', Str ''00a7'')])
   = Inr (Sent (updatePrice_request sample_platform (Num (Finite 1))
       (Obj [(''date'', Str ''yesterday''), (''metal'', Str ''silver''), (''purity'', Null),
             (''unit'', Str ''1g''), (''price'', Num (Finite 95))])))
   \<and> \<not> is_calendar_date ''yesterday''"
proof -
  have "\<not> is_calendar_date ''yesterday''"
    by (simp add: is_calendar_date_def)
  moreover have "handleUpdate sample_platform
     (scripted_window [(''Update date (YYYY-MM-DD):'', ''yesterday''),
        (''Update unit (1g / 10g / 1kg):'', ''1g''),
        (''Update price in INR for selected unit:'', ''95'')] True)
     (Obj [(''index'', Num (Finite 1)),
           (''data'', Obj [(''date'', Str ''2026-02-21''), (''metal'', Str ''silver''),
              (''purity'', Null), (''unit'', Str ''1g''), (''price'', Num (Finite 92))]),
           (''hash'', Str ''00a7'')])
   = Inr (Sent (updatePrice_request sample_platform (Num (Finite 1))
       (Obj [(''date'', Str ''yesterday''), (''metal'', Str ''silver''), (''purity'', Null),
             (''unit'', Str ''1g''), (''price'', Num (Finite 95))])))"
    by (simp add: handleUpdate_def js_get_def nullish_def prompt_date_def prompt_unit_def
        prompt_price_def scripted_window_def sample_platform_def sample_strings UNITS_def
        js_isFinite_def js_le_zero_def js_or_def)
  ultimately show ?thesis by simp
qed

text \<open>
  C8. Every update request sent from the dialog carries, as the metal of its replacement
  payload, the metal the block has: the dialog asks for the date, the unit, the purity
  (of a gold block) and the price, and never for the metal.
\<close>

theorem update_keeps_metal:
  assumes "handleUpdate pf win block = Inr (Sent req)"
  shows "\<exists>payload. req_method req = PUT \<and> req_body req = Some payload
     \<and> js_prop payload ''metal'' = js_prop (js_prop block ''data'') ''metal''"
  using assms
  by (auto simp: handleUpdate_def js_get_def updatePrice_request_def Let_def
      split: if_splits option.splits sum.splits)

theorem update_keeps_metal_witness:
  "\<exists>payload.
     req_body (updatePrice_request sample_platform (Num (Finite 2))
       (Obj [(''date'', Str ''2026-02-23''), (''metal'', Str ''gold''),
             (''purity'', Str ''22K''), (''unit'', Str ''10g''),
             (''price'', Num (Finite 64500))])) = Some payload
     \<and> js_prop payload ''metal'' = Str ''gold''"
  using update_keeps_metal [OF gold_update_sent] by simp

text \<open>
  C9. Cancelling sends nothing. When the date prompt, the unit prompt, the purity prompt
  (shown for a gold block) or the price prompt of the update dialog is dismissed, the
  handler sends no request; when the delete confirmation is answered negatively, the
  handler sends no request.
\<close>

theorem cancel_sends_nothing:
  "(prompt_date win (js_prop block ''data'') = None
    \<or> prompt_unit win (js_prop block ''data'') = None
    \<or> (js_prop (js_prop block ''data'') ''metal'' = Str ''gold''
        \<and> prompt_purity win (js_prop block ''data'') = None)
    \<or> prompt_price pf win (js_prop block ''data'') = None
    \<longrightarrow> requests_sent (handleUpdate pf win block) = [])
   \<and> ((\<forall>msg. \<not> confirm win msg) \<longrightarrow> requests_sent (handleDelete pf win block) = [])"
  by (auto simp: handleUpdate_def handleDelete_def requests_sent_def js_get_def Let_def
      split: sum.splits option.splits if_splits jsval.splits outcome.splits)

theorem cancel_sends_nothing_witness:
  "requests_sent (handleUpdate sample_platform
     (scripted_window [(''Update date (YYYY-MM-DD):'', ''2026-02-23''),
        (''Update unit (1g / 10g / 1kg):'', ''10g''),
        (''Update gold purity (18K / 22K / 24K):'', ''22K'')] False)
     (Obj [(''index'', Num (Finite 2)),
           (''data'', Obj [(''date'', Str ''2026-02-22''), (''metal'', Str ''gold''),
              (''purity'', Str ''24K''), (''unit'', Str ''10g''),
              (''price'', Num (Finite 64200))]),
           (''hash'', Str ''00c1'')])) = []
   \<and> requests_sent (handleDelete sample_platform
     (scripted_window [(''Update date (YYYY-MM-DD):'', ''2026-02-23''),
        (''Update unit (1g / 10g / 1kg):'', ''10g''),
        (''Update gold purity (18K / 22K / 24K):'', ''22K'')] False)
     (Obj [(''index'', Num (Finite 2)),
           (''data'', Obj [(''date'', Str ''2026-02-22''), (''metal'', Str ''gold''),
              (''purity'', Str ''24K''), (''unit'', Str ''10g''),
              (''price'', Num (Finite 64200))]),
           (''hash'', Str ''00c1'')])) = []"
proof -
  let ?cur = "Obj [(''date'', Str ''2026-02-22''), (''metal'', Str ''gold''),
    (''purity'', Str ''24K''), (''unit'', Str ''10g''), (''price'', Num (Finite 64200))]"
  let ?b = "Obj [(''index'', Num (Finite 2)), (''data'', ?cur), (''hash'', Str ''00c1'')]"
  let ?w = "scripted_window [(''Update date (YYYY-MM-DD):'', ''2026-02-23''),
        (''Update unit (1g / 10g / 1kg):'', ''10g''),
        (''Update gold purity (18K / 22K / 24K):'', ''22K'')] False"
  have dismissed: "prompt_price sample_platform ?w (js_prop ?b ''data'') = None"
    by (simp add: prompt_price_def scripted_window_def)
  have declined: "\<forall>msg. \<not> confirm ?w msg"
    by (simp add: scripted_window_def)
  from cancel_sends_nothing [of ?w ?b sample_platform] dismissed declined
  show ?thesis by blast
qed

section \<open>The predict request\<close>

lemma predict_hands_over:
  assumes "predict_params pf arg = Inr q"
  shows "predict pf fetch arg =
     (case fetch \<lparr>req_method = GET, req_url = API_BASE @ ''/predict'', req_query = q,
                   req_headers = [], req_body = None\<rparr> of
        Inl e \<Rightarrow> Inl e
      | Inr res \<Rightarrow> json_or_throw pf ''Failed to predict'' res)"
  using assms by (simp add: predict_def predict_request_def)

lemma predictionPayload_params:
  "predict_params pf (predictionPayload flt) =
     Inr ([(''days_ahead'', js_numToString pf (Finite 1)), (''metal'', filter_metal flt)]
          @ (if filter_metal flt = ''gold'' \<and> filter_purity flt \<noteq> []
             then [(''purity'', filter_purity flt)] else []))"
  by (simp add: predict_params_def predictionPayload_def dflt_def nullish_def)

lemma predict_params_keys:
  assumes "arg \<noteq> Null"
  shows "\<exists>q. predict_params pf arg = Inr q
     \<and> ''days_ahead'' \<in> fst ` set q \<and> ''metal'' \<in> fst ` set q
     \<and> (''purity'' \<in> fst ` set q \<longleftrightarrow> truthy (js_prop arg ''purity''))"
  using assms by (auto simp: predict_params_def dflt_def nullish_def Let_def)

text \<open>
  C4. The request \<^verbatim>\<open>predict\<close> hands to \<^verbatim>\<open>fetch\<close> when the app calls it (with
  \<^verbatim>\<open>predictionPayload\<close>) is a GET of \<^verbatim>\<open>/predict\<close> whose query has \<^verbatim>\<open>days_ahead\<close> (the
  number 1 as a string) and \<^verbatim>\<open>metal\<close> (the metal of the filter), and has \<^verbatim>\<open>purity\<close>
  exactly when the metal is gold and the purity of the filter is not empty; so it has none
  when the metal is not gold. Called without an argument, \<^verbatim>\<open>predict\<close> sends 1 and silver;
  and whatever its argument, the query it sends has \<^verbatim>\<open>days_ahead\<close> and \<^verbatim>\<open>metal\<close>, and
  \<^verbatim>\<open>purity\<close> exactly when a truthy (for a string: non-empty) purity was supplied. The
  request is the one whose answer decides the result, for every \<^verbatim>\<open>fetch\<close>.
\<close>

theorem predict_query:
  "(\<forall>fetch. predict pf fetch (predictionPayload flt) =
       (case fetch
          \<lparr>req_method = GET, req_url = API_BASE @ ''/predict'',
           req_query =
             [(''days_ahead'', js_numToString pf (Finite 1)), (''metal'', filter_metal flt)]
             @ (if filter_metal flt = ''gold'' \<and> filter_purity flt \<noteq> []
                then [(''purity'', filter_purity flt)] else []),
           req_headers = [], req_body = None\<rparr> of
          Inl e \<Rightarrow> Inl e
        | Inr res \<Rightarrow> json_or_throw pf ''Failed to predict'' res))
   \<and> (\<forall>fetch. predict pf fetch Undefined =
         (case fetch \<lparr>req_method = GET, req_url = API_BASE @ ''/predict'',
                       req_query = [(''days_ahead'', js_numToString pf (Finite 1)),
                                    (''metal'', ''silver'')],
                       req_headers = [], req_body = None\<rparr> of
            Inl e \<Rightarrow> Inl e
          | Inr res \<Rightarrow> json_or_throw pf ''Failed to predict'' res))
   \<and> (arg \<noteq> Null \<longrightarrow>
        (\<exists>q. (\<forall>fetch. predict pf fetch arg =
                 (case fetch \<lparr>req_method = GET, req_url = API_BASE @ ''/predict'',
                               req_query = q, req_headers = [], req_body = None\<rparr> of
                    Inl e \<Rightarrow> Inl e
                  | Inr res \<Rightarrow> json_or_throw pf ''Failed to predict'' res))
           \<and> ''days_ahead'' \<in> fst ` set q \<and> ''metal'' \<in> fst ` set q
           \<and> (''purity'' \<in> fst ` set q \<longleftrightarrow> truthy (js_prop arg ''purity''))))"
proof (intro conjI impI)
  from predict_hands_over [OF predictionPayload_params]
  show "\<forall>fetch. predict pf fetch (predictionPayload flt) =
       (case fetch
          \<lparr>req_method = GET, req_url = API_BASE @ ''/predict'',
           req_query =
             [(''days_ahead'', js_numToString pf (Finite 1)), (''metal'', filter_metal flt)]
             @ (if filter_metal flt = ''gold'' \<and> filter_purity flt \<noteq> []
                then [(''purity'', filter_purity flt)] else []),
           req_headers = [], req_body = None\<rparr> of
          Inl e \<Rightarrow> Inl e
        | Inr res \<Rightarrow> json_or_throw pf ''Failed to predict'' res)"
    by blast
next
  have "predict_params pf Undefined
      = Inr [(''days_ahead'', js_numToString pf (Finite 1)), (''metal'', ''silver'')]"
    by (simp add: predict_params_def dflt_def nullish_def)
  from predict_hands_over [OF this]
  show "\<forall>fetch. predict pf fetch Undefined =
         (case fetch \<lparr>req_method = GET, req_url = API_BASE @ ''/predict'',
                       req_query = [(''days_ahead'', js_numToString pf (Finite 1)),
                                    (''metal'', ''silver'')],
                       req_headers = [], req_body = None\<rparr> of
            Inl e \<Rightarrow> Inl e
          | Inr res \<Rightarrow> json_or_throw pf ''Failed to predict'' res)"
    by blast
next
  assume "arg \<noteq> Null"
  from predict_params_keys [OF this, of pf] obtain q where
    q: "predict_params pf arg = Inr q"
    and keys: "''days_ahead'' \<in> fst ` set q" "''metal'' \<in> fst ` set q"
      "''purity'' \<in> fst ` set q \<longleftrightarrow> truthy (js_prop arg ''purity'')"
    by blast
  from predict_hands_over [OF q] keys
  show "\<exists>q. (\<forall>fetch. predict pf fetch arg =
                 (case fetch \<lparr>req_method = GET, req_url = API_BASE @ ''/predict'',
                               req_query = q, req_headers = [], req_body = None\<rparr> of
                    Inl e \<Rightarrow> Inl e
                  | Inr res \<Rightarrow> json_or_throw pf ''Failed to predict'' res))
           \<and> ''days_ahead'' \<in> fst ` set q \<and> ''metal'' \<in> fst ` set q
           \<and> (''purity'' \<in> fst ` set q \<longleftrightarrow> truthy (js_prop arg ''purity''))"
    by blast
qed

text \<open>
  A server that answers the expected request only: the gold filter is answered on the
  query with the purity, and a server that expects the query without it gives no answer.
\<close>

theorem predict_query_witness:
  "predict sample_platform
     (answering_only
        \<lparr>req_method = GET, req_url = ''http://localhost:8000/predict'',
         req_query = [(''days_ahead'', ''1''), (''metal'', ''gold''), (''purity'', ''22K'')],
         req_headers = [], req_body = None\<rparr>
        \<lparr>res_ok = True, res_json = Inr (Obj [(''can_predict'', Bool False)])\<rparr>)
     (predictionPayload \<lparr>filter_metal = ''gold'', filter_purity = ''22K''\<rparr>)
   = Inr (Obj [(''can_predict'', Bool False)])
   \<and> predict sample_platform
     (answering_only
        \<lparr>req_method = GET, req_url = ''http://localhost:8000/predict'',
         req_query = [(''days_ahead'', ''1''), (''metal'', ''gold'')],
         req_headers = [], req_body = None\<rparr>
        \<lparr>res_ok = True, res_json = Inr (Obj [(''can_predict'', Bool False)])\<rparr>)
     (predictionPayload \<lparr>filter_metal = ''gold'', filter_purity = ''22K''\<rparr>)
   = Inl TypeError
   \<and> predict sample_platform
     (answering_only
        \<lparr>req_method = GET, req_url = ''http://localhost:8000/predict'',
         req_query = [(''days_ahead'', ''1''), (''metal'', ''silver'')],
         req_headers = [], req_body = None\<rparr>
        \<lparr>res_ok = True, res_json = Inr (Obj [(''can_predict'', Bool False)])\<rparr>)
     Undefined
   = Inr (Obj [(''can_predict'', Bool False)])"
proof -
  let ?flt = "\<lparr>filter_metal = ''gold'', filter_purity = ''22K''\<rparr>"
  have one: "js_numToString sample_platform (Finite 1) = ''1''"
    by (simp add: sample_platform_def sample_strings)
  from predict_query [of sample_platform ?flt Undefined] one show ?thesis
    by (simp add: answering_only_def API_BASE_def json_or_throw_def)
qed

section \<open>The results of the API functions\<close>

text \<open>
  C5, as the code has it. Let a call receive the response \<open>res\<close>. When the response is ok,
  each of the five functions returns what \<^verbatim>\<open>res.json()\<close> gives. When it is not ok, each
  of them throws and none returns: \<^verbatim>\<open>getChain\<close> throws the fixed message
  \<^verbatim>\<open>Failed to fetch chain\<close> whatever the body says; the other four throw an Error with the
  body's \<^verbatim>\<open>detail\<close> when that is a non-empty string, and with their fixed fallback message
  when the body is an object whose \<^verbatim>\<open>detail\<close> is absent or falsy.
\<close>

theorem api_results:
  assumes "\<And>req. fetch req = Inr res"
  shows "(res_ok res \<longrightarrow>
            getChain fetch = res_json res \<and> addPrice pf fetch payload = res_json res
            \<and> updatePrice pf fetch i payload = res_json res
            \<and> deletePrice pf fetch i = res_json res
            \<and> (arg \<noteq> Null \<longrightarrow> predict pf fetch arg = res_json res))
       \<and> (\<not> res_ok res \<longrightarrow>
            getChain fetch = Inl (Error ''Failed to fetch chain'')
            \<and> isl (addPrice pf fetch payload) \<and> isl (updatePrice pf fetch i payload)
            \<and> isl (deletePrice pf fetch i) \<and> isl (predict pf fetch arg))
       \<and> (\<not> res_ok res \<and> res_json res = Inr (Obj fs) \<and> map_of fs ''detail'' = Some (Str d)
           \<and> d \<noteq> [] \<longrightarrow>
            addPrice pf fetch payload = Inl (Error d)
            \<and> updatePrice pf fetch i payload = Inl (Error d)
            \<and> deletePrice pf fetch i = Inl (Error d)
            \<and> (arg \<noteq> Null \<longrightarrow> predict pf fetch arg = Inl (Error d)))
       \<and> (\<not> res_ok res \<and> res_json res = Inr (Obj fs)
           \<and> \<not> truthy (js_prop (Obj fs) ''detail'') \<longrightarrow>
            addPrice pf fetch payload = Inl (Error ''Failed to add price'')
            \<and> updatePrice pf fetch i payload = Inl (Error ''Failed to update price'')
            \<and> deletePrice pf fetch i = Inl (Error ''Failed to delete price'')
            \<and> (arg \<noteq> Null \<longrightarrow> predict pf fetch arg = Inl (Error ''Failed to predict'')))"
  using assms
  by (auto simp: getChain_def addPrice_def updatePrice_def deletePrice_def predict_def
      json_or_throw_def js_get_def nullish_def js_or_def predict_params_def dflt_def Let_def
      split: sum.splits if_splits)

theorem api_results_witness:
  "addPrice sample_platform
     (respond_with \<lparr>res_ok = False,
        res_json = Inr (Obj [(''detail'', Str ''purity is required for gold'')])\<rparr>)
     (Obj [(''date'', Str ''2026-02-21''), (''metal'', Str ''gold''), (''purity'', Null),
           (''unit'', Str ''1g''), (''price'', Num (Finite 92))])
   = Inl (Error ''purity is required for gold'')
   \<and> deletePrice sample_platform
       (respond_with \<lparr>res_ok = False, res_json = Inr (Obj [])\<rparr>) (Num (Finite 7))
     = Inl (Error ''Failed to delete price'')
   \<and> getChain (respond_with \<lparr>res_ok = True, res_json = Inr (Obj [(''length'', Num (Finite 1))])\<rparr>)
     = Inr (Obj [(''length'', Num (Finite 1))])"
proof -
  let ?refused = "\<lparr>res_ok = False,
    res_json = Inr (Obj [(''detail'', Str ''purity is required for gold'')])\<rparr>"
  let ?bare = "\<lparr>res_ok = False, res_json = Inr (Obj [])\<rparr>"
  let ?fine = "\<lparr>res_ok = True, res_json = Inr (Obj [(''length'', Num (Finite 1))])\<rparr>"
  have r: "\<And>res req. respond_with res req = Inr res" by (simp add: respond_with_def)
  from api_results [where fetch = "respond_with ?refused" and res = ?refused
      and fs = "[(''detail'', Str ''purity is required for gold'')]"
      and d = "''purity is required for gold''" and pf = sample_platform, OF r]
  have "addPrice sample_platform (respond_with ?refused)
     (Obj [(''date'', Str ''2026-02-21''), (''metal'', Str ''gold''), (''purity'', Null),
           (''unit'', Str ''1g''), (''price'', Num (Finite 92))])
     = Inl (Error ''purity is required for gold'')"
    by simp
  moreover from api_results [where fetch = "respond_with ?bare" and res = ?bare
      and fs = "[]" and pf = sample_platform, OF r]
  have "deletePrice sample_platform (respond_with ?bare) (Num (Finite 7))
     = Inl (Error ''Failed to delete price'')"
    by simp
  moreover from api_results [where fetch = "respond_with ?fine" and res = ?fine, OF r]
  have "getChain (respond_with ?fine) = Inr (Obj [(''length'', Num (Finite 1))])"
    by simp
  ultimately show ?thesis by simp
qed

theorem getChain_drops_detail:
  "getChain (respond_with
     \<lparr>res_ok = False, res_json = Inr (Obj [(''detail'', Str ''Chain is locked'')])\<rparr>)
   = Inl (Error ''Failed to fetch chain'')"
  by (simp add: getChain_def respond_with_def getChain_request_def)

section \<open>The prediction card\<close>

text \<open>
  C6. For every forecast response (an object that echoes its metal as a string, and whose
  shown fields are values React renders, not plain objects) the prediction card shows the
  series key: the metal, in upper case, and the purity when there is one. When
  \<^verbatim>\<open>can_predict\<close> is true the card shows the three estimates for 1g, 10g and 1kg, each
  with the currency; when it is false the card shows the message and no price.
\<close>

theorem prediction_card_contents:
  assumes "js_prop prediction ''metal'' = Str m"
    and "react_child_ok (js_prop prediction ''purity'')"
    and "truthy (js_prop prediction ''can_predict'')
           \<longrightarrow> react_child_ok (js_prop prediction ''predicted_price_inr_1g'')
               \<and> react_child_ok (js_prop prediction ''predicted_price_inr_10g'')
               \<and> react_child_ok (js_prop prediction ''predicted_price_inr_1kg'')
               \<and> react_child_ok (js_prop prediction ''currency'')"
    and "\<not> truthy (js_prop prediction ''can_predict'')
           \<longrightarrow> react_child_ok (js_prop prediction ''message'')"
  shows "\<exists>card. render_prediction pf prediction = Inr (Some card)
     \<and> card_metal card = js_toUpperCase pf m
     \<and> (truthy (js_prop prediction ''purity'')
          \<longrightarrow> card_purity card = Some (js_prop prediction ''purity''))
     \<and> (\<not> truthy (js_prop prediction ''purity'') \<longrightarrow> card_purity card = None)
     \<and> (js_prop prediction ''can_predict'' = Bool True \<longrightarrow>
          card_body card = Estimates (js_prop prediction ''predicted_price_inr_1g'')
            (js_prop prediction ''predicted_price_inr_10g'')
            (js_prop prediction ''predicted_price_inr_1kg'')
            (js_prop prediction ''currency''))
     \<and> (js_prop prediction ''can_predict'' = Bool False \<longrightarrow>
          card_body card = Message (js_prop prediction ''message'') \<and> prices_shown card = [])"
proof -
  from assms(1) obtain fs where "prediction = Obj fs"
    by (cases prediction) auto
  then show ?thesis using assms
    by (auto simp: render_prediction_def prices_shown_def card_children_def Let_def)
qed

theorem prediction_card_contents_witness:
  "(\<exists>card. render_prediction sample_platform
       (Obj [(''metal'', Str ''gold''), (''purity'', Str ''22K''), (''can_predict'', Bool True),
             (''predicted_price_inr_1g'', Num (Finite 6420)),
             (''predicted_price_inr_10g'', Num (Finite 64200)),
             (''predicted_price_inr_1kg'', Num (Finite 6420000)),
             (''currency'', Str ''INR'')]) = Inr (Some card)
      \<and> card_metal card = ''GOLD'' \<and> card_purity card = Some (Str ''22K'')
      \<and> card_body card = Estimates (Num (Finite 6420)) (Num (Finite 64200))
          (Num (Finite 6420000)) (Str ''INR''))
   \<and> (\<exists>card. render_prediction sample_platform
       (Obj [(''metal'', Str ''silver''), (''purity'', Null), (''can_predict'', Bool False),
             (''message'', Str ''Need at least 2 data points''),
             (''currency'', Str ''INR'')]) = Inr (Some card)
      \<and> card_metal card = ''SILVER'' \<and> card_purity card = None
      \<and> card_body card = Message (Str ''Need at least 2 data points'')
      \<and> prices_shown card = [])"
proof -
  have upper: "js_toUpperCase sample_platform ''gold'' = ''GOLD''"
    "js_toUpperCase sample_platform ''silver'' = ''SILVER''"
    by (simp_all add: sample_platform_def sample_strings)
  let ?gold = "Obj [(''metal'', Str ''gold''), (''purity'', Str ''22K''),
    (''can_predict'', Bool True), (''predicted_price_inr_1g'', Num (Finite 6420)),
    (''predicted_price_inr_10g'', Num (Finite 64200)),
    (''predicted_price_inr_1kg'', Num (Finite 6420000)), (''currency'', Str ''INR'')]"
  let ?silver = "Obj [(''metal'', Str ''silver''), (''purity'', Null),
    (''can_predict'', Bool False), (''message'', Str ''Need at least 2 data points''),
    (''currency'', Str ''INR'')]"
  have g: "js_prop ?gold ''metal'' = Str ''gold''" by simp
  have gp: "react_child_ok (js_prop ?gold ''purity'')" by simp
  have ge: "truthy (js_prop ?gold ''can_predict'')
      \<longrightarrow> react_child_ok (js_prop ?gold ''predicted_price_inr_1g'')
          \<and> react_child_ok (js_prop ?gold ''predicted_price_inr_10g'')
          \<and> react_child_ok (js_prop ?gold ''predicted_price_inr_1kg'')
          \<and> react_child_ok (js_prop ?gold ''currency'')" by simp
  have gm: "\<not> truthy (js_prop ?gold ''can_predict'')
      \<longrightarrow> react_child_ok (js_prop ?gold ''message'')" by simp
  have s: "js_prop ?silver ''metal'' = Str ''silver''" by simp
  have sp: "react_child_ok (js_prop ?silver ''purity'')" by simp
  have se: "truthy (js_prop ?silver ''can_predict'')
      \<longrightarrow> react_child_ok (js_prop ?silver ''predicted_price_inr_1g'')
          \<and> react_child_ok (js_prop ?silver ''predicted_price_inr_10g'')
          \<and> react_child_ok (js_prop ?silver ''predicted_price_inr_1kg'')
          \<and> react_child_ok (js_prop ?silver ''currency'')" by simp
  have sm: "\<not> truthy (js_prop ?silver ''can_predict'')
      \<longrightarrow> react_child_ok (js_prop ?silver ''message'')" by simp
  from prediction_card_contents [OF g gp ge gm, of sample_platform]
    prediction_card_contents [OF s sp se sm, of sample_platform] upper
  show ?thesis by simp
qed

text \<open>A forecast whose message is a plain object: React throws, and no card is shown.\<close>

lemma object_message_not_rendered:
  "render_prediction sample_platform
     (Obj [(''metal'', Str ''silver''), (''purity'', Null), (''can_predict'', Bool False),
           (''message'', Obj [(''reason'', Str ''Need at least 2 data points'')]),
           (''currency'', Str ''INR'')])
   = Inl InvalidChild"
  by (simp add: render_prediction_def card_children_def)

section \<open>The validity of the ledger\<close>

lemma block_digest_seal_hash [simp]:
  "block_digest cfg (b\<lparr>blk_seal := s, blk_hash := h\<rparr>) t = block_digest cfg b t"
  by (simp add: block_digest_def)

lemma seal_search_sealed:
  "seal_search cfg b fuel s = Some b' \<Longrightarrow>
     sealed cfg b' \<and> blk_previous_hash b' = blk_previous_hash b \<and> blk_index b' = blk_index b
     \<and> blk_timestamp b' = blk_timestamp b \<and> blk_payload b' = blk_payload b"
proof (induction fuel arbitrary: s)
  case 0
  then show ?case by simp
next
  case (Suc fuel)
  show ?case
  proof (cases "prefix (cfg_prefix cfg) (block_digest cfg b s)")
    case True
    with Suc.prems show ?thesis by (auto simp: sealed_def)
  next
    case False
    with Suc.prems have "seal_search cfg b fuel (Suc s) = Some b'" by simp
    then show ?thesis by (rule Suc.IH)
  qed
qed

lemma seal_sealed:
  "seal cfg b = Some b' \<Longrightarrow>
     sealed cfg b' \<and> blk_previous_hash b' = blk_previous_hash b \<and> blk_index b' = blk_index b
     \<and> blk_timestamp b' = blk_timestamp b \<and> blk_payload b' = blk_payload b"
  unfolding seal_def by (rule seal_search_sealed)

lemma reseal_valid:
  "reseal cfg prev bs = Some bs' \<Longrightarrow> valid_from cfg prev bs' \<and> length bs' = length bs"
proof (induction bs arbitrary: prev bs')
  case Nil
  then show ?case by simp
next
  case (Cons b bs)
  from Cons.prems obtain c cs where
    c: "seal cfg (b\<lparr>blk_previous_hash := prev\<rparr>) = Some c"
    and cs: "reseal cfg (blk_hash c) bs = Some cs" and eq: "bs' = c # cs"
    by (auto split: option.splits)
  from seal_sealed [OF c] have "sealed cfg c" "blk_previous_hash c = prev" by simp_all
  with Cons.IH [OF cs] eq show ?case by simp
qed

lemma valid_from_append:
  "valid_from cfg prev (xs @ ys) =
     (valid_from cfg prev xs \<and> valid_from cfg (if xs = [] then prev else blk_hash (last xs)) ys)"
  by (induction xs arbitrary: prev) auto

lemma valid_from_sealed: "valid_from cfg prev l \<Longrightarrow> b \<in> set l \<Longrightarrow> sealed cfg b"
  by (induction l arbitrary: prev) auto

lemma valid_from_link:
  "valid_from cfg prev l \<Longrightarrow> 0 < k \<Longrightarrow> k < length l \<Longrightarrow>
     blk_previous_hash (l ! k) = blk_hash (l ! (k - 1))"
proof (induction l arbitrary: prev k)
  case Nil
  then show ?case by simp
next
  case (Cons b bs)
  show ?case
  proof (cases "k = 1")
    case True
    with Cons.prems show ?thesis by (cases bs) auto
  next
    case False
    with Cons.prems have "1 < k" by simp
    then obtain j where j: "k = Suc j" "0 < j" by (cases k) auto
    with Cons.prems have "blk_previous_hash (bs ! j) = blk_hash (bs ! (j - 1))"
      using Cons.IH [of "blk_hash b" j] by simp
    with j show ?thesis by (cases j) auto
  qed
qed

lemma well_sealed_is_valid: "well_sealed cfg l \<Longrightarrow> is_valid cfg l"
  by (cases l) (auto simp: well_sealed_def is_valid_def)

text \<open>Replacing the blocks from index \<open>i\<close> on by a chain sealed on block \<open>i - 1\<close>.\<close>

lemma well_sealed_replace_suffix:
  assumes w: "well_sealed cfg l" and i: "0 < i" "i \<le> length l"
    and rs: "valid_from cfg (blk_hash (l ! (i - 1))) rs"
  shows "well_sealed cfg (take i l @ rs)"
proof -
  from w have ne: "l \<noteq> []" and v: "valid_from cfg (blk_previous_hash (hd l)) l"
    by (simp_all add: well_sealed_def)
  from i ne have tne: "take i l \<noteq> []" by (cases l) auto
  from i ne have hd: "hd (take i l @ rs) = hd l" by (cases l) (auto simp: take_Suc_conv_app_nth)
  from i have lst: "last (take i l) = l ! (i - 1)"
    using tne by (simp add: last_conv_nth min_def)
  have "valid_from cfg (blk_previous_hash (hd l)) (take i l @ drop i l)" using v by simp
  then have "valid_from cfg (blk_previous_hash (hd l)) (take i l)"
    unfolding valid_from_append by simp
  with rs tne lst have "valid_from cfg (blk_previous_hash (hd l)) (take i l @ rs)"
    unfolding valid_from_append by simp
  with tne hd show ?thesis by (simp add: well_sealed_def)
qed

lemma create_well_sealed: "create_ledger cfg now = Inr l \<Longrightarrow> well_sealed cfg l"
  by (auto simp: create_ledger_def well_sealed_def split: option.splits dest: seal_sealed)

lemma add_well_sealed:
  assumes "well_sealed cfg l" and "add cfg now p l = Inr l'"
  shows "well_sealed cfg l'"
proof -
  from assms(2) obtain b where
    b: "seal cfg \<lparr>blk_index = length l, blk_timestamp = now, blk_payload = Some p,
                  blk_previous_hash = blk_hash (last l), blk_seal = 0, blk_hash = []\<rparr> = Some b"
    and l': "l' = l @ [b]"
    by (auto simp: add_def split: option.splits list.splits)
  from seal_sealed [OF b] have "valid_from cfg (blk_hash (last l)) [b]" by simp
  moreover from assms(1) have "l \<noteq> []" by (simp add: well_sealed_def)
  then have "blk_hash (last l) = blk_hash (l ! (length l - 1))" by (simp add: last_conv_nth)
  ultimately have "well_sealed cfg (take (length l) l @ [b])"
    using assms(1) \<open>l \<noteq> []\<close> by (intro well_sealed_replace_suffix) simp_all
  with l' show ?thesis by simp
qed

lemma update_well_sealed:
  assumes "well_sealed cfg l" and "update cfg i p l = Inr l'"
  shows "well_sealed cfg l'"
proof -
  from assms(2) obtain rs where i: "0 < i" "i < length l"
    and rs: "reseal cfg (blk_hash (l ! (i - 1)))
               ((l ! i)\<lparr>blk_payload := Some p\<rparr> # drop (Suc i) l) = Some rs"
    and l': "l' = take i l @ rs"
    by (auto simp: update_def split: if_splits option.splits)
  from reseal_valid [OF rs] i assms(1) l' show ?thesis
    by (auto intro: well_sealed_replace_suffix)
qed

lemma delete_well_sealed:
  assumes "well_sealed cfg l" and "delete cfg i l = Inr l'"
  shows "well_sealed cfg l'"
proof -
  from assms(2) obtain rs where i: "0 < i" "i < length l"
    and rs: "reseal cfg (blk_hash (l ! (i - 1)))
               (map (\<lambda>b. b\<lparr>blk_index := blk_index b - 1\<rparr>) (drop (Suc i) l)) = Some rs"
    and l': "l' = take i l @ rs"
    by (auto simp: delete_def split: if_splits option.splits)
  from reseal_valid [OF rs] i assms(1) l' show ?thesis
    by (auto intro: well_sealed_replace_suffix)
qed

lemma run_well_sealed:
  "well_sealed cfg l \<Longrightarrow> run cfg ops l = Inr l' \<Longrightarrow> well_sealed cfg l'"
proof (induction ops arbitrary: l)
  case Nil
  then show ?case by simp
next
  case (Cons x xs)
  from Cons.prems(2) obtain m where
    m: "apply_operation cfg x l = Inr m" and r: "run cfg xs m = Inr l'"
    by (auto split: sum.splits)
  from m Cons.prems(1) have "well_sealed cfg m"
    by (cases x) (auto dest: add_well_sealed update_well_sealed delete_well_sealed)
  with r show ?case by (rule Cons.IH [rotated -1])
qed

text \<open>
  C7. Starting from the ledger that holds the genesis block only, after any finite sequence
  of add, update and delete operations that all succeed, the validity check holds; every
  block's stored hash is the Hasher's output over its current fields and starts with the
  difficulty prefix; and the previous hash of every block after the first is the hash of
  its predecessor. This holds for every Hasher, prefix and iteration cap.
\<close>

theorem ledger_stays_valid:
  assumes "create_ledger cfg now = Inr l0" and "run cfg ops l0 = Inr l"
  shows "is_valid cfg l
     \<and> (\<forall>b\<in>set l. blk_hash b = block_digest cfg b (blk_seal b)
                    \<and> prefix (cfg_prefix cfg) (blk_hash b))
     \<and> (\<forall>k. 0 < k \<and> k < length l \<longrightarrow> blk_previous_hash (l ! k) = blk_hash (l ! (k - 1)))"
proof -
  from assms have w: "well_sealed cfg l"
    by (blast intro: run_well_sealed create_well_sealed)
  then have v: "valid_from cfg (blk_previous_hash (hd l)) l" by (simp add: well_sealed_def)
  from w have "is_valid cfg l" by (rule well_sealed_is_valid)
  moreover from v have "\<forall>b\<in>set l. blk_hash b = block_digest cfg b (blk_seal b)
      \<and> prefix (cfg_prefix cfg) (blk_hash b)"
    using valid_from_sealed [of cfg _ l] unfolding sealed_def by blast
  moreover from v have
    "\<forall>k. 0 < k \<and> k < length l \<longrightarrow> blk_previous_hash (l ! k) = blk_hash (l ! (k - 1))"
    by (blast dest: valid_from_link)
  ultimately show ?thesis by blast
qed

theorem ledger_stays_valid_witness:
  "create_ledger toy_config 5
     = Inr [\<lparr>blk_index = 0, blk_timestamp = 5, blk_payload = None, blk_previous_hash = ''0'',
             blk_seal = 4, blk_hash = ''028''\<rparr>]
   \<and> run toy_config
        [Add 6 \<lparr>pt_date = ''2026-02-21'', pt_metal = ''silver'', pt_purity = None,
                pt_unit = ''1g'', pt_price = Finite 92\<rparr>,
         Add 7 \<lparr>pt_date = ''2026-02-22'', pt_metal = ''gold'', pt_purity = Some ''22K'',
                pt_unit = ''10g'', pt_price = Finite 64200\<rparr>,
         Update 1 \<lparr>pt_date = ''2026-02-22'', pt_metal = ''gold'', pt_purity = Some ''22K'',
                pt_unit = ''10g'', pt_price = Finite 64200\<rparr>,
         Delete 1]
        [\<lparr>blk_index = 0, blk_timestamp = 5, blk_payload = None, blk_previous_hash = ''0'',
          blk_seal = 4, blk_hash = ''028''\<rparr>]
     = Inr [\<lparr>blk_index = 0, blk_timestamp = 5, blk_payload = None, blk_previous_hash = ''0'',
             blk_seal = 4, blk_hash = ''028''\<rparr>,
            \<lparr>blk_index = 1, blk_timestamp = 7,
             blk_payload = Some \<lparr>pt_date = ''2026-02-22'', pt_metal = ''gold'',
               pt_purity = Some ''22K'', pt_unit = ''10g'', pt_price = Finite 64200\<rparr>,
             blk_previous_hash = ''028'', blk_seal = 1, blk_hash = ''08''\<rparr>]
   \<and> is_valid toy_config
        [\<lparr>blk_index = 0, blk_timestamp = 5, blk_payload = None, blk_previous_hash = ''0'',
          blk_seal = 4, blk_hash = ''028''\<rparr>,
         \<lparr>blk_index = 1, blk_timestamp = 7,
          blk_payload = Some \<lparr>pt_date = ''2026-02-22'', pt_metal = ''gold'',
            pt_purity = Some ''22K'', pt_unit = ''10g'', pt_price = Finite 64200\<rparr>,
          blk_previous_hash = ''028'', blk_seal = 1, blk_hash = ''08''\<rparr>]"
proof -
  let ?g = "\<lparr>blk_index = 0, blk_timestamp = 5, blk_payload = None, blk_previous_hash = ''0'',
             blk_seal = 4, blk_hash = ''028''\<rparr>"
  let ?gold = "\<lparr>pt_date = ''2026-02-22'', pt_metal = ''gold'', pt_purity = Some ''22K'',
                pt_unit = ''10g'', pt_price = Finite 64200\<rparr>"
  let ?ops = "[Add 6 \<lparr>pt_date = ''2026-02-21'', pt_metal = ''silver'', pt_purity = None,
                pt_unit = ''1g'', pt_price = Finite 92\<rparr>, Add 7 ?gold, Update 1 ?gold, Delete 1]"
  let ?l = "[?g, \<lparr>blk_index = 1, blk_timestamp = 7, blk_payload = Some ?gold,
             blk_previous_hash = ''028'', blk_seal = 1, blk_hash = ''08''\<rparr>]"
  have c: "create_ledger toy_config 5 = Inr [?g]"
    by code_simp
  have r: "run toy_config ?ops [?g] = Inr ?l"
    by code_simp
  from ledger_stays_valid [OF c r] c r show ?thesis by simp
qed

section \<open>The metal selectors\<close>

text \<open>
  C10. Switching a metal selector to gold sets the purity to 24K when it was empty before
  and keeps it otherwise; switching it to any other metal clears the purity. So after each
  change of the metal, in the add form and in the prediction filter, the purity is
  non-empty exactly when the selected metal is gold.
\<close>

theorem metal_change_sets_purity:
  "(form_purity p = [] \<longrightarrow> form_purity (form_metal_onChange ''gold'' p) = ''24K'')
   \<and> (v \<noteq> ''gold'' \<longrightarrow> form_purity (form_metal_onChange v p) = [])
   \<and> (form_purity (form_metal_onChange v p) \<noteq> []
        \<longleftrightarrow> form_metal (form_metal_onChange v p) = ''gold'')
   \<and> (filter_purity q = [] \<longrightarrow> filter_purity (filter_metal_onChange ''gold'' q) = ''24K'')
   \<and> (v \<noteq> ''gold'' \<longrightarrow> filter_purity (filter_metal_onChange v q) = [])
   \<and> (filter_purity (filter_metal_onChange v q) \<noteq> []
        \<longleftrightarrow> filter_metal (filter_metal_onChange v q) = ''gold'')"
  by (simp add: form_metal_onChange_def filter_metal_onChange_def str_or_def)

theorem metal_change_sets_purity_witness:
  "form_purity initial_form = []
   \<and> form_purity (form_metal_onChange ''gold'' initial_form) = ''24K''
   \<and> ''platinum'' \<noteq> ''gold''
   \<and> form_purity (form_metal_onChange ''platinum''
        (form_metal_onChange ''gold'' initial_form)) = []
   \<and> filter_purity initial_predictFilter = []
   \<and> filter_purity (filter_metal_onChange ''gold'' initial_predictFilter) = ''24K''
   \<and> filter_purity (filter_metal_onChange ''platinum''
        (filter_metal_onChange ''gold'' initial_predictFilter)) = []"
  using metal_change_sets_purity [of initial_form "''platinum''" initial_predictFilter]
    metal_change_sets_purity [of "form_metal_onChange ''gold'' initial_form" "''platinum''"
      "filter_metal_onChange ''gold'' initial_predictFilter"]
  by (simp add: initial_form_def initial_predictFilter_def)

end
